theory Spec2Isabelle
  imports Complex_Main
begin

section \<open>Python values read from the procedure column\<close>

text \<open>
  \<^verbatim>\<open>analyze_partial_credit.py\<close> parses the \<^verbatim>\<open>procedure_json\<close> cell of a variant with
  \<^verbatim>\<open>json.loads\<close> and, failing that, \<^verbatim>\<open>ast.literal_eval\<close>. The values these return are
  modelled by \<open>pyval\<close>: the JSON-shaped Python values. A float carries a real number
  (NaN and the infinities are not represented), a dict is the list of its items in
  iteration order, with distinct keys. Values that only \<^verbatim>\<open>ast.literal_eval\<close> can
  return (tuples, sets, bytes, complex numbers) are not represented. Strings are byte strings here, so iterating one yields one-character
  strings only for ASCII text.
\<close>

datatype pyval =
    PyNone
  | PyBool bool
  | PyInt int
  | PyFloat real
  | PyStr string
  | PyList "pyval list"
  | PyDict "(pyval \<times> pyval) list"

datatype error = TypeError | ZeroDivisionError

text \<open>
  A member of a Python set is known up to \<^verbatim>\<open>==\<close>: \<^verbatim>\<open>True\<close>, \<^verbatim>\<open>1\<close> and \<^verbatim>\<open>1.0\<close> are one
  member, a string is equal only to the same string. Lists and dicts are unhashable:
  adding one to a set raises \<^verbatim>\<open>TypeError\<close>.
\<close>

datatype pykey = KNone | KNum real | KStr string

fun py_hash :: "pyval \<Rightarrow> error + pykey" where
  "py_hash PyNone = Inr KNone"
| "py_hash (PyBool b) = Inr (KNum (if b then 1 else 0))"
| "py_hash (PyInt i) = Inr (KNum (of_int i))"
| "py_hash (PyFloat r) = Inr (KNum r)"
| "py_hash (PyStr s) = Inr (KStr s)"
| "py_hash (PyList xs) = Inl TypeError"
| "py_hash (PyDict d) = Inl TypeError"

text \<open>Truth value of an object, as \<^verbatim>\<open>if not procedures\<close> tests it.\<close>

fun py_truthy :: "pyval \<Rightarrow> bool" where
  "py_truthy PyNone = False"
| "py_truthy (PyBool b) = b"
| "py_truthy (PyInt i) = (i \<noteq> 0)"
| "py_truthy (PyFloat r) = (r \<noteq> 0)"
| "py_truthy (PyStr s) = (s \<noteq> [])"
| "py_truthy (PyList xs) = (xs \<noteq> [])"
| "py_truthy (PyDict d) = (d \<noteq> [])"

text \<open>
  What \<^verbatim>\<open>for proc in procedures\<close> iterates over: the elements of a list, the keys of a
  dict, the characters of a string; a number, a boolean or \<^verbatim>\<open>None\<close> is not iterable.
\<close>

fun py_iter :: "pyval \<Rightarrow> error + pyval list" where
  "py_iter (PyList xs) = Inr xs"
| "py_iter (PyDict d) = Inr (map fst d)"
| "py_iter (PyStr s) = Inr (map (\<lambda>c. PyStr [c]) s)"
| "py_iter PyNone = Inl TypeError"
| "py_iter (PyBool b) = Inl TypeError"
| "py_iter (PyInt i) = Inl TypeError"
| "py_iter (PyFloat r) = Inl TypeError"

text \<open>
  \<^verbatim>\<open>str(proc)\<close>: a string is returned as it is; for every other value \<^verbatim>\<open>str\<close> is the
  built-in \<^verbatim>\<open>repr\<close>, taken as the parameter \<open>repr\<close>.
\<close>

fun py_str :: "(pyval \<Rightarrow> string) \<Rightarrow> pyval \<Rightarrow> string" where
  "py_str repr (PyStr s) = s"
| "py_str repr v = repr v"

text \<open>\<^verbatim>\<open>proc_set.add(x)\<close>: hashes \<open>x\<close>, which raises for a list or a dict.\<close>

definition set_add :: "pykey set \<Rightarrow> pyval \<Rightarrow> error + pykey set" where
  "set_add proc_set x = (case py_hash x of Inl e \<Rightarrow> Inl e | Inr k \<Rightarrow> Inr (insert k proc_set))"

section \<open>Procedure extraction (\<^verbatim>\<open>analyze_partial_credit.py\<close>)\<close>

text \<open>
  \<^verbatim>\<open>safe_parse_json(json_str)\<close>. The cell is \<open>None\<close> when pandas read it as missing
  (\<^verbatim>\<open>pd.isna\<close>), a string otherwise. The two library parsers are parameters:
  \<open>json_loads s = None\<close> and \<open>literal_eval s = None\<close> stand for "raised", which the bare
  \<^verbatim>\<open>except\<close> clauses catch.
\<close>

definition safe_parse_json ::
  "(string \<Rightarrow> pyval option) \<Rightarrow> (string \<Rightarrow> pyval option) \<Rightarrow> string option \<Rightarrow> pyval" where
  "safe_parse_json json_loads literal_eval json_str =
     (case json_str of
        None \<Rightarrow> PyList []
      | Some s \<Rightarrow>
          (case json_loads s of
             Some v \<Rightarrow> v
           | None \<Rightarrow>
               (case literal_eval s of
                  Some v \<Rightarrow> v
                | None \<Rightarrow> PyList [])))"

text \<open>
  The body of the loop of \<^verbatim>\<open>extract_procedures\<close> for one \<open>proc\<close>. The test
  \<^verbatim>\<open>if not proc_set\<close> looks at the set accumulated so far, as the source does.
\<close>

definition extract_step :: "(pyval \<Rightarrow> string) \<Rightarrow> pykey set \<Rightarrow> pyval \<Rightarrow> error + pykey set" where
  "extract_step repr proc_set proc =
     (case proc of
        PyDict d \<Rightarrow>
          (case (case map_of d (PyStr ''code'') of
                   Some c \<Rightarrow> set_add proc_set c
                 | None \<Rightarrow> Inr proc_set) of
             Inl e \<Rightarrow> Inl e
           | Inr s1 \<Rightarrow>
               (case (case map_of d (PyStr ''name'') of
                        Some n \<Rightarrow> set_add s1 n
                      | None \<Rightarrow> Inr s1) of
                  Inl e \<Rightarrow> Inl e
                | Inr s2 \<Rightarrow>
                    (if s2 = {} then set_add s2 (PyStr (py_str repr proc)) else Inr s2)))
      | _ \<Rightarrow> set_add proc_set (PyStr (py_str repr proc)))"

fun extract_loop :: "(pyval \<Rightarrow> string) \<Rightarrow> pykey set \<Rightarrow> pyval list \<Rightarrow> error + pykey set" where
  "extract_loop repr proc_set [] = Inr proc_set"
| "extract_loop repr proc_set (proc # procs) =
     (case extract_step repr proc_set proc of
        Inl e \<Rightarrow> Inl e
      | Inr s \<Rightarrow> extract_loop repr s procs)"

definition extract_procedures ::
  "(string \<Rightarrow> pyval option) \<Rightarrow> (string \<Rightarrow> pyval option) \<Rightarrow> (pyval \<Rightarrow> string) \<Rightarrow>
   string option \<Rightarrow> error + pykey set" where
  "extract_procedures json_loads literal_eval repr procedure_json =
     (let procedures = safe_parse_json json_loads literal_eval procedure_json in
      if \<not> py_truthy procedures then Inr {}
      else (case py_iter procedures of
              Inl e \<Rightarrow> Inl e
            | Inr procs \<Rightarrow> extract_loop repr {} procs))"

section \<open>Partial-credit analysis (\<^verbatim>\<open>analyze_partial_credit.py\<close>)\<close>

text \<open>
  One row of the detailed results file: \<^verbatim>\<open>evaluate_synthetic_descriptions\<close> writes these
  rows and \<^verbatim>\<open>analyze_partial_credit\<close> reads them back. Variants are strings.
\<close>

record result_row =
  description_type :: string
  query_id :: nat
  original_variant :: string
  synthetic_description :: string
  retrieved_condition :: string
  retrieved_variant :: string
  exact_match :: string
  euclidean_distance :: real

text \<open>The counters and score lists of the loop over one description type.\<close>

record credit_state =
  exact_matches :: nat
  procedure_matches :: nat
  condition_matches :: nat
  procedure_precision_scores :: "real list"
  procedure_recall_scores :: "real list"

text \<open>The entry \<^verbatim>\<open>analysis[desc_type]\<close>.\<close>

record analysis =
  analysis_total_queries :: nat
  analysis_exact_matches :: nat
  analysis_procedure_matches :: nat
  analysis_condition_matches :: nat
  exact_accuracy :: real
  procedure_accuracy :: real
  condition_accuracy :: real
  procedure_precision :: real
  procedure_recall :: real
  procedure_f1 :: real

text \<open>
  \<^verbatim>\<open>variant_to_procedure.get(variant, '[]')\<close>: the stored cell (\<open>None\<close> when pandas read
  it as missing), or the text \<^verbatim>\<open>[]\<close> for a variant that is not a key.
\<close>

definition get_procedure_json :: "(string \<rightharpoonup> string option) \<Rightarrow> string \<Rightarrow> string option" where
  "get_procedure_json variant_to_procedure variant =
     (case variant_to_procedure variant of None \<Rightarrow> Some ''[]'' | Some cell \<Rightarrow> cell)"

text \<open>
  \<^verbatim>\<open>original_condition and retrieved_condition and original_condition == retrieved_condition\<close>,
  on the results of \<^verbatim>\<open>variant_to_condition.get\<close>: \<^verbatim>\<open>None\<close> and the empty string are false.
\<close>

definition same_condition :: "string option \<Rightarrow> string option \<Rightarrow> bool" where
  "same_condition original_cond retrieved_cond =
     (case original_cond of
        None \<Rightarrow> False
      | Some oc \<Rightarrow>
          (case retrieved_cond of
             None \<Rightarrow> False
           | Some rc \<Rightarrow> oc \<noteq> [] \<and> rc \<noteq> [] \<and> oc = rc))"

text \<open>
  The body of \<^verbatim>\<open>for _, row in desc_results.iterrows()\<close>. On an exact match the counters
  and lists are updated and the loop continues with the next row. Otherwise the two
  procedure sets are extracted (an exception of \<^verbatim>\<open>extract_procedures\<close> leaves the loop),
  scored, and the conditions compared. \<^verbatim>\<open>len(s)\<close> is \<open>card s\<close>.
\<close>

definition row_step ::
  "(string \<Rightarrow> pyval option) \<Rightarrow> (string \<Rightarrow> pyval option) \<Rightarrow> (pyval \<Rightarrow> string) \<Rightarrow>
   (string \<rightharpoonup> string option) \<Rightarrow> (string \<rightharpoonup> string) \<Rightarrow>
   credit_state \<Rightarrow> result_row \<Rightarrow> error + credit_state" where
  "row_step json_loads literal_eval repr variant_to_procedure variant_to_condition st row =
     (if original_variant row = retrieved_variant row then
        Inr (st\<lparr>exact_matches := exact_matches st + 1,
                procedure_matches := procedure_matches st + 1,
                condition_matches := condition_matches st + 1,
                procedure_precision_scores := procedure_precision_scores st @ [1],
                procedure_recall_scores := procedure_recall_scores st @ [1]\<rparr>)
      else
        (case extract_procedures json_loads literal_eval repr
                (get_procedure_json variant_to_procedure (original_variant row)) of
           Inl e \<Rightarrow> Inl e
         | Inr original_procedures \<Rightarrow>
             (case extract_procedures json_loads literal_eval repr
                     (get_procedure_json variant_to_procedure (retrieved_variant row)) of
                Inl e \<Rightarrow> Inl e
              | Inr retrieved_procedures \<Rightarrow>
                  (let st1 =
                         (if original_procedures \<noteq> {} \<and> retrieved_procedures \<noteq> {} then
                            (let intersection = original_procedures \<inter> retrieved_procedures;
                                 st0 = (if intersection \<noteq> {}
                                        then st\<lparr>procedure_matches := procedure_matches st + 1\<rparr>
                                        else st);
                                 precision = (if retrieved_procedures \<noteq> {}
                                              then real (card intersection) / real (card retrieved_procedures)
                                              else 0);
                                 recall = (if original_procedures \<noteq> {}
                                           then real (card intersection) / real (card original_procedures)
                                           else 0)
                             in st0\<lparr>procedure_precision_scores := procedure_precision_scores st0 @ [precision],
                                    procedure_recall_scores := procedure_recall_scores st0 @ [recall]\<rparr>)
                          else
                            st\<lparr>procedure_precision_scores := procedure_precision_scores st @ [0],
                               procedure_recall_scores := procedure_recall_scores st @ [0]\<rparr>)
                   in Inr (if same_condition (variant_to_condition (original_variant row))
                                             (variant_to_condition (retrieved_variant row))
                           then st1\<lparr>condition_matches := condition_matches st1 + 1\<rparr>
                           else st1)))))"

fun analyze_rows ::
  "(string \<Rightarrow> pyval option) \<Rightarrow> (string \<Rightarrow> pyval option) \<Rightarrow> (pyval \<Rightarrow> string) \<Rightarrow>
   (string \<rightharpoonup> string option) \<Rightarrow> (string \<rightharpoonup> string) \<Rightarrow>
   credit_state \<Rightarrow> result_row list \<Rightarrow> error + credit_state" where
  "analyze_rows json_loads literal_eval repr variant_to_procedure variant_to_condition st [] = Inr st"
| "analyze_rows json_loads literal_eval repr variant_to_procedure variant_to_condition st (row # rows) =
     (case row_step json_loads literal_eval repr variant_to_procedure variant_to_condition st row of
        Inl e \<Rightarrow> Inl e
      | Inr st' \<Rightarrow>
          analyze_rows json_loads literal_eval repr variant_to_procedure variant_to_condition st' rows)"

text \<open>
  Python's \<^verbatim>\<open>/\<close> on two integers: a zero divisor raises; otherwise the result is the
  float nearest the quotient. Here, and for the quotient of two set sizes in \<open>row_step\<close>,
  the model keeps the quotient itself, which stands for that float.
\<close>

definition py_div :: "real \<Rightarrow> real \<Rightarrow> error + real" where
  "py_div a b = (if b = 0 then Inl ZeroDivisionError else Inr (a / b))"

subsection \<open>Floating-point arithmetic\<close>

text \<open>
  The averages and the F1 value are computed from floats by float additions,
  multiplications and divisions, each rounded to the nearest binary64 number, a tie
  going to the even significand. \<open>fl x\<close> is that rounding of the real number \<open>x\<close>: the
  significand has 53 bits, and the exponent range is taken as unbounded (no overflow,
  no underflow, no subnormal numbers).
\<close>

definition pow2 :: "int \<Rightarrow> real" where
  "pow2 e = (if 0 \<le> e then 2 ^ nat e else 1 / 2 ^ nat (- e))"

definition round_half_even :: "real \<Rightarrow> int" where
  "round_half_even y =
     (let f = \<lfloor>y\<rfloor>; d = y - of_int f
      in if d < 1 / 2 then f
         else if d > 1 / 2 then f + 1
         else if even f then f else f + 1)"

text \<open>The exponent of the last bit of the significand of \<open>x\<close>.\<close>

definition binary64_exponent :: "real \<Rightarrow> int" where
  "binary64_exponent x = \<lfloor>log 2 \<bar>x\<bar>\<rfloor> - 52"

definition fl :: "real \<Rightarrow> real" where
  "fl x = (if x = 0 then 0
           else of_int (round_half_even (x / pow2 (binary64_exponent x)))
                * pow2 (binary64_exponent x))"

definition float_add :: "real \<Rightarrow> real \<Rightarrow> real" where
  "float_add x y = fl (x + y)"

definition float_mul :: "real \<Rightarrow> real \<Rightarrow> real" where
  "float_mul x y = fl (x * y)"

definition float_truediv :: "real \<Rightarrow> real \<Rightarrow> error + real" where
  "float_truediv x y = (if y = 0 then Inl ZeroDivisionError else Inr (fl (x / y)))"

text \<open>
  The built-in \<^verbatim>\<open>sum\<close> is a parameter of the metrics below (\<open>py_sum\<close>), since its
  rounding depends on the interpreter. \<open>float_sum\<close> is the sum of a list of floats by
  additions from the left, starting from 0, each rounded, as CPython computes it before
  version 3.12; from 3.12 on CPython compensates the rounding errors. The examples use
  \<open>float_sum\<close> on lists whose partial sums are floats, where no rounding occurs.
\<close>

definition float_sum :: "real list \<Rightarrow> real" where
  "float_sum xs = foldl float_add 0 xs"

text \<open>
  The statements after the loop ("Calculate metrics"), in the source's order;
  \<open>total_count\<close> is the source's \<^verbatim>\<open>total\<close>. The three accuracies are quotients of two
  integers. The score lists hold floats (\<open>fl\<close> of the modelled quotients); their sums
  (\<open>py_sum\<close>), the division by the length, and the sum, product and quotient of the F1
  expression \<^verbatim>\<open>2 * (p * r) / (p + r)\<close> are float operations.
\<close>

definition calculate_metrics :: "(real list \<Rightarrow> real) \<Rightarrow> credit_state \<Rightarrow> nat \<Rightarrow> error + analysis" where
  "calculate_metrics py_sum st total_count =
     (case py_div (real (exact_matches st)) (real total_count) of
        Inl e \<Rightarrow> Inl e
      | Inr exact_acc \<Rightarrow>
     (case py_div (real (procedure_matches st)) (real total_count) of
        Inl e \<Rightarrow> Inl e
      | Inr procedure_acc \<Rightarrow>
     (case py_div (real (condition_matches st)) (real total_count) of
        Inl e \<Rightarrow> Inl e
      | Inr condition_acc \<Rightarrow>
     (case float_truediv (py_sum (map fl (procedure_precision_scores st)))
                         (fl (real (length (procedure_precision_scores st)))) of
        Inl e \<Rightarrow> Inl e
      | Inr avg_procedure_precision \<Rightarrow>
     (case float_truediv (py_sum (map fl (procedure_recall_scores st)))
                         (fl (real (length (procedure_recall_scores st)))) of
        Inl e \<Rightarrow> Inl e
      | Inr avg_procedure_recall \<Rightarrow>
     (case (if float_add avg_procedure_precision avg_procedure_recall > 0
            then float_truediv (float_mul 2 (float_mul avg_procedure_precision avg_procedure_recall))
                               (float_add avg_procedure_precision avg_procedure_recall)
            else Inr 0) of
        Inl e \<Rightarrow> Inl e
      | Inr f1 \<Rightarrow>
          Inr \<lparr>analysis_total_queries = total_count,
               analysis_exact_matches = exact_matches st,
               analysis_procedure_matches = procedure_matches st,
               analysis_condition_matches = condition_matches st,
               exact_accuracy = exact_acc,
               procedure_accuracy = procedure_acc,
               condition_accuracy = condition_acc,
               procedure_precision = avg_procedure_precision,
               procedure_recall = avg_procedure_recall,
               procedure_f1 = f1\<rparr>))))))"

definition initial_state :: credit_state where
  "initial_state =
     \<lparr>exact_matches = 0, procedure_matches = 0, condition_matches = 0,
      procedure_precision_scores = [], procedure_recall_scores = []\<rparr>"

text \<open>One pass of \<^verbatim>\<open>for desc_type in [...]\<close>: the rows of that type, the loop, the metrics.\<close>

definition analyze_desc_type ::
  "(string \<Rightarrow> pyval option) \<Rightarrow> (string \<Rightarrow> pyval option) \<Rightarrow> (pyval \<Rightarrow> string) \<Rightarrow>
   (real list \<Rightarrow> real) \<Rightarrow>
   (string \<rightharpoonup> string option) \<Rightarrow> (string \<rightharpoonup> string) \<Rightarrow>
   result_row list \<Rightarrow> string \<Rightarrow> error + analysis" where
  "analyze_desc_type json_loads literal_eval repr py_sum variant_to_procedure variant_to_condition
       df_results desc_type =
     (let desc_results = filter (\<lambda>row. description_type row = desc_type) df_results;
          total_count = length desc_results
      in case analyze_rows json_loads literal_eval repr variant_to_procedure variant_to_condition
                initial_state desc_results of
           Inl e \<Rightarrow> Inl e
         | Inr st \<Rightarrow> calculate_metrics py_sum st total_count)"

fun analyze_desc_types ::
  "(string \<Rightarrow> pyval option) \<Rightarrow> (string \<Rightarrow> pyval option) \<Rightarrow> (pyval \<Rightarrow> string) \<Rightarrow>
   (real list \<Rightarrow> real) \<Rightarrow>
   (string \<rightharpoonup> string option) \<Rightarrow> (string \<rightharpoonup> string) \<Rightarrow>
   result_row list \<Rightarrow> string list \<Rightarrow> error + (string \<times> analysis) list" where
  "analyze_desc_types json_loads literal_eval repr py_sum variant_to_procedure variant_to_condition
       df_results [] = Inr []"
| "analyze_desc_types json_loads literal_eval repr py_sum variant_to_procedure variant_to_condition
       df_results (desc_type # desc_types) =
     (case analyze_desc_type json_loads literal_eval repr py_sum variant_to_procedure variant_to_condition
             df_results desc_type of
        Inl e \<Rightarrow> Inl e
      | Inr a \<Rightarrow>
          (case analyze_desc_types json_loads literal_eval repr py_sum variant_to_procedure
                  variant_to_condition df_results desc_types of
             Inl e \<Rightarrow> Inl e
           | Inr rest \<Rightarrow> Inr ((desc_type, a) # rest)))"

text \<open>
  \<^verbatim>\<open>analyze_partial_credit()\<close>, with the two mappings of \<^verbatim>\<open>load_acr_mapping\<close> and the rows
  of the results file as arguments. The result lists \<^verbatim>\<open>analysis\<close> by description type.
\<close>

definition analyze_partial_credit ::
  "(string \<Rightarrow> pyval option) \<Rightarrow> (string \<Rightarrow> pyval option) \<Rightarrow> (pyval \<Rightarrow> string) \<Rightarrow>
   (real list \<Rightarrow> real) \<Rightarrow>
   (string \<rightharpoonup> string option) \<Rightarrow> (string \<rightharpoonup> string) \<Rightarrow>
   result_row list \<Rightarrow> error + (string \<times> analysis) list" where
  "analyze_partial_credit json_loads literal_eval repr py_sum variant_to_procedure variant_to_condition
       df_results =
     analyze_desc_types json_loads literal_eval repr py_sum variant_to_procedure variant_to_condition
       df_results [''desc_1'', ''desc_2'', ''desc_3'']"

section \<open>Building the index (\<^verbatim>\<open>embed_acr.py\<close>)\<close>

text \<open>A row of \<^verbatim>\<open>dataset/acr.csv\<close>, by its column names.\<close>

record acr_row =
  Condition :: string
  Variant :: string
  Procedure :: string
  Appropriateness_Category :: string

text \<open>A row of the table \<^verbatim>\<open>acr_embeddings\<close>; \<open>'v\<close> is the type of the encoder's vectors.\<close>

record 'v acr_embedding =
  col_id :: nat
  col_condition :: string
  col_variant :: string
  col_procedure :: string
  col_appropriateness :: string
  col_combined_text :: string
  col_embedding :: 'v

text \<open>
  The f-string \<^verbatim>\<open>f"Condition: {row['Condition']} | Clinical Scenario: {row['Variant']}"\<close>.
\<close>

definition combined_text :: "acr_row \<Rightarrow> string" where
  "combined_text row = ''Condition: '' @ Condition row @ '' | Clinical Scenario: '' @ Variant row"

text \<open>
  The loop of the script: the rows inserted into the freshly created table, in order,
  with the serial \<^verbatim>\<open>id\<close> counting from 1. The encoder \<^verbatim>\<open>model.encode\<close> is the
  parameter \<open>encode\<close>.
\<close>

definition embed_acr :: "(string \<Rightarrow> 'v) \<Rightarrow> acr_row list \<Rightarrow> 'v acr_embedding list" where
  "embed_acr encode df =
     map (\<lambda>(idx, row).
            (let text = combined_text row;
                 embedding = encode text
             in \<lparr>col_id = idx + 1,
                 col_condition = Condition row,
                 col_variant = Variant row,
                 col_procedure = Procedure row,
                 col_appropriateness = Appropriateness_Category row,
                 col_combined_text = text,
                 col_embedding = embedding\<rparr>))
         (enumerate 0 df)"

section \<open>Querying the index (\<^verbatim>\<open>search_acr.py\<close>, \<^verbatim>\<open>test_embedding_accuracy_3desc.py\<close>)\<close>

text \<open>
  The statement \<^verbatim>\<open>query_embedding = model.encode(query)\<close> of \<^verbatim>\<open>search\<close>, which the
  evaluator repeats as \<^verbatim>\<open>self.model.encode(synthetic_desc)\<close>.
\<close>

definition query_embedding :: "(string \<Rightarrow> 'v) \<Rightarrow> string \<Rightarrow> 'v" where
  "query_embedding encode query = encode query"

text \<open>
  \<^verbatim>\<open>search(query, limit)\<close>: the rows it fetches and prints. The SQL statement (order by
  distance to the vector, at most \<open>limit\<close> rows) is the parameter \<open>nearest\<close>.
\<close>

definition search :: "(string \<Rightarrow> 'v) \<Rightarrow> ('v \<Rightarrow> nat \<Rightarrow> 'r list) \<Rightarrow> string \<Rightarrow> nat \<Rightarrow> 'r list" where
  "search encode nearest query limit = nearest (query_embedding encode query) limit"

text \<open>
  The counters of the loop of \<^verbatim>\<open>evaluate_synthetic_descriptions\<close> over one description
  type, with the list \<^verbatim>\<open>all_results\<close>, which is shared by the three types.
\<close>

record eval_state =
  correct_matches :: nat
  total_queries :: nat
  distances :: "real list"
  all_results :: "result_row list"

text \<open>The entry \<^verbatim>\<open>results_summary[desc_type]\<close>.\<close>

record results_summary =
  summary_description_type :: string
  summary_total_queries :: nat
  summary_exact_matches :: nat
  accuracy :: real
  mean_distance :: real

text \<open>
  A row of \<^verbatim>\<open>results/patient_cases_2.csv\<close>: the original variant, and the description
  cells by column name (\<open>None\<close> for a cell pandas read as missing).
\<close>

type_synonym patient_case = "string \<times> (string \<rightharpoonup> string)"

text \<open>
  The body of \<^verbatim>\<open>for idx, row in df.iterrows()\<close>. The parameter \<open>fetchone\<close> is the
  nearest-neighbour statement with \<^verbatim>\<open>LIMIT 1\<close> followed by \<^verbatim>\<open>cur.fetchone()\<close>: the
  retrieved condition, variant and distance, or \<open>None\<close> when no row comes back. The
  built-in \<^verbatim>\<open>round\<close> is the parameter \<open>py_round\<close>.
\<close>

definition eval_step ::
  "(real \<Rightarrow> nat \<Rightarrow> real) \<Rightarrow> (string \<Rightarrow> 'v) \<Rightarrow> ('v \<Rightarrow> (string \<times> string \<times> real) option) \<Rightarrow>
   string \<Rightarrow> eval_state \<Rightarrow> nat \<times> patient_case \<Rightarrow> eval_state" where
  "eval_step py_round encode fetchone desc_type st indexed_row =
     (case indexed_row of (idx, orig_variant, cells) \<Rightarrow>
        (case cells desc_type of
           None \<Rightarrow> st
         | Some synthetic_desc \<Rightarrow>
             (let st1 = st\<lparr>total_queries := total_queries st + 1\<rparr> in
              case fetchone (query_embedding encode synthetic_desc) of
                None \<Rightarrow> st1
              | Some (retr_condition, retr_variant, distance) \<Rightarrow>
                  (let st2 = st1\<lparr>distances := distances st1 @ [distance]\<rparr>;
                       is_exact = (retr_variant = orig_variant);
                       st3 = (if is_exact
                              then st2\<lparr>correct_matches := correct_matches st2 + 1\<rparr>
                              else st2)
                   in st3\<lparr>all_results := all_results st3 @
                          [\<lparr>description_type = desc_type,
                            query_id = idx + 1,
                            original_variant = orig_variant,
                            synthetic_description = synthetic_desc,
                            retrieved_condition = retr_condition,
                            retrieved_variant = retr_variant,
                            exact_match = (if is_exact then ''Yes'' else ''No''),
                            euclidean_distance = py_round distance 6\<rparr>]\<rparr>))))"

text \<open>The loop over the rows of the data frame, whose index counts from 0.\<close>

definition eval_rows ::
  "(real \<Rightarrow> nat \<Rightarrow> real) \<Rightarrow> (string \<Rightarrow> 'v) \<Rightarrow> ('v \<Rightarrow> (string \<times> string \<times> real) option) \<Rightarrow>
   string \<Rightarrow> eval_state \<Rightarrow> (nat \<times> patient_case) list \<Rightarrow> eval_state" where
  "eval_rows py_round encode fetchone desc_type st indexed_rows =
     foldl (eval_step py_round encode fetchone desc_type) st indexed_rows"

text \<open>
  One pass of \<^verbatim>\<open>for desc_type in [...]\<close>: the loop from fresh counters, then the metrics.
  Returns the summary entry and the extended \<^verbatim>\<open>all_results\<close>. The accuracy is a
  quotient of two integers (kept as the quotient, as above); \<^verbatim>\<open>np.mean\<close> is the
  parameter \<open>np_mean\<close>.
\<close>

definition evaluate_desc_type ::
  "(real \<Rightarrow> nat \<Rightarrow> real) \<Rightarrow> (real list \<Rightarrow> real) \<Rightarrow>
   (string \<Rightarrow> 'v) \<Rightarrow> ('v \<Rightarrow> (string \<times> string \<times> real) option) \<Rightarrow> patient_case list \<Rightarrow>
   result_row list \<Rightarrow> string \<Rightarrow> results_summary \<times> result_row list" where
  "evaluate_desc_type py_round np_mean encode fetchone df results_so_far desc_type =
     (let st = eval_rows py_round encode fetchone desc_type
                 \<lparr>correct_matches = 0, total_queries = 0, distances = [],
                  all_results = results_so_far\<rparr>
                 (enumerate 0 df);
          acc = (if total_queries st > 0
                 then real (correct_matches st) / real (total_queries st) else 0);
          mean_dist = (if distances st \<noteq> [] then np_mean (distances st) else 0)
      in (\<lparr>summary_description_type = desc_type,
           summary_total_queries = total_queries st,
           summary_exact_matches = correct_matches st,
           accuracy = py_round acc 4,
           mean_distance = py_round mean_dist 6\<rparr>,
          all_results st))"

fun evaluate_desc_types ::
  "(real \<Rightarrow> nat \<Rightarrow> real) \<Rightarrow> (real list \<Rightarrow> real) \<Rightarrow>
   (string \<Rightarrow> 'v) \<Rightarrow> ('v \<Rightarrow> (string \<times> string \<times> real) option) \<Rightarrow> patient_case list \<Rightarrow>
   result_row list \<Rightarrow> string list \<Rightarrow> (string \<times> results_summary) list \<times> result_row list" where
  "evaluate_desc_types py_round np_mean encode fetchone df results_so_far [] = ([], results_so_far)"
| "evaluate_desc_types py_round np_mean encode fetchone df results_so_far (desc_type # desc_types) =
     (case evaluate_desc_type py_round np_mean encode fetchone df results_so_far desc_type of
        (summary, results') \<Rightarrow>
          (case evaluate_desc_types py_round np_mean encode fetchone df results' desc_types of
             (summaries, results'') \<Rightarrow> ((desc_type, summary) # summaries, results'')))"

text \<open>
  \<^verbatim>\<open>evaluate_synthetic_descriptions\<close>: the summary by description type and the detail rows
  that are written to the results file.
\<close>

definition evaluate_synthetic_descriptions ::
  "(real \<Rightarrow> nat \<Rightarrow> real) \<Rightarrow> (real list \<Rightarrow> real) \<Rightarrow>
   (string \<Rightarrow> 'v) \<Rightarrow> ('v \<Rightarrow> (string \<times> string \<times> real) option) \<Rightarrow> patient_case list \<Rightarrow>
   (string \<times> results_summary) list \<times> result_row list" where
  "evaluate_synthetic_descriptions py_round np_mean encode fetchone df =
     evaluate_desc_types py_round np_mean encode fetchone df [] [''desc_1'', ''desc_2'', ''desc_3'']"

section \<open>Example data\<close>

text \<open>
  The scenario used in the examples below: variant \<open>A\<close> has the procedures \<open>X\<close> and
  \<open>Y\<close>, variant \<open>B\<close> has \<open>X\<close> and \<open>Z\<close>, both under one condition; the cell of
  variant \<open>N\<close> is the text \<^verbatim>\<open>5\<close>. \<open>scenario_json_loads\<close> gives the value of
  \<^verbatim>\<open>json.loads\<close> on these cells.
\<close>

definition scenario_json_loads :: "string \<Rightarrow> pyval option" where
  \<open>scenario_json_loads s =
     (if s = ''{"X": "Usually appropriate", "Y": "May be appropriate"}''
      then Some (PyDict [(PyStr ''X'', PyStr ''Usually appropriate''),
                         (PyStr ''Y'', PyStr ''May be appropriate'')])
      else if s = ''{"X": "Usually appropriate", "Z": "Usually not appropriate"}''
      then Some (PyDict [(PyStr ''X'', PyStr ''Usually appropriate''),
                         (PyStr ''Z'', PyStr ''Usually not appropriate'')])
      else if s = ''5'' then Some (PyInt 5)
      else if s = ''[]'' then Some (PyList [])
      else None)\<close>

definition scenario_variant_to_procedure :: "string \<rightharpoonup> string option" where
  \<open>scenario_variant_to_procedure =
     [''A'' \<mapsto> Some ''{"X": "Usually appropriate", "Y": "May be appropriate"}'',
      ''B'' \<mapsto> Some ''{"X": "Usually appropriate", "Z": "Usually not appropriate"}'',
      ''N'' \<mapsto> Some ''5'']\<close>

definition scenario_variant_to_condition :: "string \<rightharpoonup> string" where
  "scenario_variant_to_condition = [''A'' \<mapsto> ''Chest pain'', ''B'' \<mapsto> ''Chest pain'']"

definition scenario_row :: "string \<Rightarrow> string \<Rightarrow> result_row" where
  "scenario_row expected retrieved =
     \<lparr>description_type = ''desc_1'', query_id = 1, original_variant = expected,
      synthetic_description = ''a patient'', retrieved_condition = ''Chest pain'',
      retrieved_variant = retrieved,
      exact_match = (if retrieved = expected then ''Yes'' else ''No''),
      euclidean_distance = 0\<rparr>"

text \<open>
  For the index and the evaluator: an encoder that returns the text itself (so that
  distinct texts have distinct vectors), a catalog with one entry, two patient cases,
  the first without a nearest neighbour, and a nearest-neighbour statement that returns
  a row for the second case only.
\<close>

definition scenario_encode :: "string \<Rightarrow> string" where
  "scenario_encode text = text"

definition scenario_fetchone :: "string \<Rightarrow> (string \<times> string \<times> real) option" where
  "scenario_fetchone v =
     (if v = ''chest pain case'' then Some (''Chest pain'', ''A'', 1 / 4) else None)"

definition scenario_cases :: "patient_case list" where
  "scenario_cases =
     [(''B'', [''desc_1'' \<mapsto> ''headache case'']),
      (''A'', [''desc_1'' \<mapsto> ''chest pain case''])]"

text \<open>
  \<^verbatim>\<open>round\<close> and \<^verbatim>\<open>np.mean\<close> on the values of the examples: the distances and accuracies
  there (0, 1/4, 1/2) have at most two decimals and are returned by \<^verbatim>\<open>round\<close> as they
  are; the mean of one distance is that distance.
\<close>

definition scenario_round :: "real \<Rightarrow> nat \<Rightarrow> real" where
  "scenario_round x ndigits = x"

definition scenario_mean :: "real list \<Rightarrow> real" where
  "scenario_mean xs = sum_list xs / real (length xs)"

text \<open>
  Ten result rows: variant \<open>A\<close> retrieved for itself once, and nine times the variant
  \<open>E\<close>, which is in neither mapping, so that the scores are one 1 and nine 0.
\<close>

definition tenth_rows :: "result_row list" where
  "tenth_rows =
     [scenario_row ''A'' ''A'', scenario_row ''A'' ''E'', scenario_row ''A'' ''E'',
      scenario_row ''A'' ''E'', scenario_row ''A'' ''E'', scenario_row ''A'' ''E'',
      scenario_row ''A'' ''E'', scenario_row ''A'' ''E'', scenario_row ''A'' ''E'',
      scenario_row ''A'' ''E'']"

definition scenario_catalog :: "acr_row list" where
  "scenario_catalog =
     [\<lparr>Condition = ''Pacemaker'', Variant = ''Device selection'', Procedure = ''CT chest'',
       Appropriateness_Category = ''Usually appropriate''\<rparr>]"

section \<open>Extraction yields finite sets\<close>

lemma set_add_finite: "set_add s x = Inr s' \<Longrightarrow> finite s \<Longrightarrow> finite s'"
  by (auto simp: set_add_def split: sum.splits)

lemma extract_step_finite: "extract_step repr s proc = Inr s' \<Longrightarrow> finite s \<Longrightarrow> finite s'"
  unfolding extract_step_def
  by (auto split: pyval.splits sum.splits option.splits if_splits dest: set_add_finite)

lemma extract_loop_finite: "extract_loop repr s procs = Inr s' \<Longrightarrow> finite s \<Longrightarrow> finite s'"
proof (induction procs arbitrary: s)
  case Nil
  then show ?case by simp
next
  case (Cons proc procs)
  then show ?case
    by (auto split: sum.splits dest: extract_step_finite)
qed

lemma extract_procedures_finite:
  "extract_procedures json_loads literal_eval repr cell = Inr s \<Longrightarrow> finite s"
  unfolding extract_procedures_def Let_def
  by (auto split: if_splits sum.splits dest: extract_loop_finite)

text \<open>The effect of one row that is not an exact match, given the two extracted sets.\<close>

lemma row_step_non_exact:
  assumes "original_variant row \<noteq> retrieved_variant row"
    and "extract_procedures json_loads literal_eval repr
           (get_procedure_json variant_to_procedure (original_variant row)) = Inr Pe"
    and "extract_procedures json_loads literal_eval repr
           (get_procedure_json variant_to_procedure (retrieved_variant row)) = Inr Pr"
  shows "row_step json_loads literal_eval repr variant_to_procedure variant_to_condition st row =
     Inr (st\<lparr>procedure_matches :=
                procedure_matches st + (if Pe \<noteq> {} \<and> Pr \<noteq> {} \<and> Pe \<inter> Pr \<noteq> {} then 1 else 0),
              condition_matches :=
                condition_matches st +
                (if same_condition (variant_to_condition (original_variant row))
                                   (variant_to_condition (retrieved_variant row)) then 1 else 0),
              procedure_precision_scores :=
                procedure_precision_scores st @
                [if Pe \<noteq> {} \<and> Pr \<noteq> {} then real (card (Pe \<inter> Pr)) / real (card Pr) else 0],
              procedure_recall_scores :=
                procedure_recall_scores st @
                [if Pe \<noteq> {} \<and> Pr \<noteq> {} then real (card (Pe \<inter> Pr)) / real (card Pe) else 0]\<rparr>)"
  using assms by (simp add: row_step_def Let_def)

section \<open>The loop of the analysis\<close>

text \<open>What one row does to the counters and lists, whichever branch is taken.\<close>

lemma row_step_effect:
  assumes "row_step json_loads literal_eval repr variant_to_procedure variant_to_condition st row = Inr st'"
  shows "\<exists>e m c p r.
           st' = st\<lparr>exact_matches := exact_matches st + e,
                    procedure_matches := procedure_matches st + m,
                    condition_matches := condition_matches st + c,
                    procedure_precision_scores := procedure_precision_scores st @ [p],
                    procedure_recall_scores := procedure_recall_scores st @ [r]\<rparr>
           \<and> e \<le> m \<and> e \<le> c \<and> m \<le> 1 \<and> 0 \<le> p \<and> 0 \<le> r
           \<and> (0 < p) = (m = 1) \<and> (0 < r) = (m = 1)"
proof (cases "original_variant row = retrieved_variant row")
  case True
  with assms have "st' = st\<lparr>exact_matches := exact_matches st + 1,
                    procedure_matches := procedure_matches st + 1,
                    condition_matches := condition_matches st + 1,
                    procedure_precision_scores := procedure_precision_scores st @ [1],
                    procedure_recall_scores := procedure_recall_scores st @ [1]\<rparr>"
    by (simp add: row_step_def)
  then show ?thesis by (intro exI[of _ 1]) simp
next
  case False
  from assms False obtain Pe where
    pe: "extract_procedures json_loads literal_eval repr
           (get_procedure_json variant_to_procedure (original_variant row)) = Inr Pe"
    by (auto simp: row_step_def split: sum.splits)
  from assms False pe obtain Pr where
    pr: "extract_procedures json_loads literal_eval repr
           (get_procedure_json variant_to_procedure (retrieved_variant row)) = Inr Pr"
    by (auto simp: row_step_def split: sum.splits)
  have fin: "finite Pe" "finite Pr"
    using pe pr by (auto dest: extract_procedures_finite)
  let ?m = "if Pe \<noteq> {} \<and> Pr \<noteq> {} \<and> Pe \<inter> Pr \<noteq> {} then 1 else 0 :: nat"
  let ?c = "if same_condition (variant_to_condition (original_variant row))
                                   (variant_to_condition (retrieved_variant row)) then 1 else 0 :: nat"
  let ?p = "if Pe \<noteq> {} \<and> Pr \<noteq> {} then real (card (Pe \<inter> Pr)) / real (card Pr) else 0"
  let ?r = "if Pe \<noteq> {} \<and> Pr \<noteq> {} then real (card (Pe \<inter> Pr)) / real (card Pe) else 0"
  have st': "st' = st\<lparr>exact_matches := exact_matches st + 0,
                    procedure_matches := procedure_matches st + ?m,
                    condition_matches := condition_matches st + ?c,
                    procedure_precision_scores := procedure_precision_scores st @ [?p],
                    procedure_recall_scores := procedure_recall_scores st @ [?r]\<rparr>"
    using assms row_step_non_exact[OF False pe pr, of variant_to_condition st] by simp
  have cards: "Pe \<noteq> {} \<Longrightarrow> 0 < card Pe" "Pr \<noteq> {} \<Longrightarrow> 0 < card Pr"
    "(0 < card (Pe \<inter> Pr)) = (Pe \<inter> Pr \<noteq> {})"
    using fin by (auto simp: card_gt_0_iff)
  have "0 \<le> ?p" "0 \<le> ?r" by simp_all
  moreover have "(0 < ?p) = (?m = 1)" using cards by (auto simp: zero_less_divide_iff)
  moreover have "(0 < ?r) = (?m = 1)" using cards by (auto simp: zero_less_divide_iff)
  moreover have "?m \<le> 1" by simp
  ultimately show ?thesis using st' by blast
qed

lemma paired_scores_sum:
  assumes "list_all2 (\<lambda>p r. 0 \<le> p \<and> 0 \<le> r \<and> (0 < p) = (0 < r)) (ps :: real list) (rs :: real list)"
  shows "0 \<le> sum_list ps \<and> 0 \<le> sum_list rs \<and> (sum_list ps = 0) = (sum_list rs = 0)"
  using assms
proof (induction rule: list_all2_induct)
  case Nil
  then show ?case by simp
next
  case (Cons p ps r rs)
  then show ?case
    by (auto simp: add_nonneg_eq_0_iff)
qed

lemma analyze_rows_invariant:
  assumes "analyze_rows json_loads literal_eval repr variant_to_procedure variant_to_condition st rows = Inr st'"
    and "exact_matches st \<le> procedure_matches st"
    and "exact_matches st \<le> condition_matches st"
    and "list_all2 (\<lambda>p r. 0 \<le> p \<and> 0 \<le> r \<and> (0 < p) = (0 < r))
           (procedure_precision_scores st) (procedure_recall_scores st)"
  shows "exact_matches st' \<le> procedure_matches st'
       \<and> exact_matches st' \<le> condition_matches st'
       \<and> list_all2 (\<lambda>p r. 0 \<le> p \<and> 0 \<le> r \<and> (0 < p) = (0 < r))
           (procedure_precision_scores st') (procedure_recall_scores st')
       \<and> length (procedure_precision_scores st') = length (procedure_precision_scores st) + length rows"
  using assms
proof (induction rows arbitrary: st)
  case Nil
  then show ?case by simp
next
  case (Cons row rows)
  from Cons.prems(1) obtain st1 where
    step: "row_step json_loads literal_eval repr variant_to_procedure variant_to_condition st row = Inr st1"
    and rest: "analyze_rows json_loads literal_eval repr variant_to_procedure variant_to_condition st1 rows = Inr st'"
    by (auto split: sum.splits)
  from row_step_effect[OF step] obtain e m c p r where
    st1: "st1 = st\<lparr>exact_matches := exact_matches st + e,
                    procedure_matches := procedure_matches st + m,
                    condition_matches := condition_matches st + c,
                    procedure_precision_scores := procedure_precision_scores st @ [p],
                    procedure_recall_scores := procedure_recall_scores st @ [r]\<rparr>"
    and b: "e \<le> m" "e \<le> c" "0 \<le> p" "0 \<le> r" "(0 < p) = (m = 1)" "(0 < r) = (m = 1)"
    by blast
  have i1: "exact_matches st1 \<le> procedure_matches st1"
    using st1 b Cons.prems(2) by simp
  have i2: "exact_matches st1 \<le> condition_matches st1"
    using st1 b Cons.prems(3) by simp
  have i3: "list_all2 (\<lambda>p r. 0 \<le> p \<and> 0 \<le> r \<and> (0 < p) = (0 < r))
           (procedure_precision_scores st1) (procedure_recall_scores st1)"
    using st1 b Cons.prems(4) by (simp add: list_all2_appendI)
  have len: "length (procedure_precision_scores st1) = length (procedure_precision_scores st) + 1"
    using st1 by simp
  from Cons.IH[OF rest i1 i2 i3] len show ?case by simp
qed

section \<open>Rounding to binary64\<close>

lemma pow2_powr: "pow2 e = 2 powr (of_int e)"
  by (simp add: pow2_def powr_int)

lemma pow2_pos: "0 < pow2 e"
  by (simp add: pow2_def)

lemma round_half_even_ge_floor: "\<lfloor>y\<rfloor> \<le> round_half_even y"
  by (simp add: round_half_even_def Let_def)

lemma binary64_exponent_eq:
  assumes "x \<noteq> 0" and "2 ^ 52 * pow2 e \<le> \<bar>x\<bar>" and "\<bar>x\<bar> < 2 ^ 53 * pow2 e"
  shows "binary64_exponent x = e"
proof -
  have a: "0 < \<bar>x\<bar>" using assms(1) by simp
  have p52: "(2::real) powr real_of_int (e + 52) = 2 ^ 52 * pow2 e"
    by (simp add: pow2_powr powr_add)
  have p53: "(2::real) powr real_of_int (e + 52 + 1) = 2 ^ 53 * pow2 e"
    by (simp add: pow2_powr powr_add)
  have iff: "(\<lfloor>log 2 \<bar>x\<bar>\<rfloor> = e + 52) =
      (2 powr real_of_int (e + 52) \<le> \<bar>x\<bar> \<and> \<bar>x\<bar> < 2 powr real_of_int (e + 52 + 1))"
    by (rule floor_log_eq_powr_iff[OF a]) simp
  have "\<lfloor>log 2 \<bar>x\<bar>\<rfloor> = e + 52"
    unfolding iff p52 p53 using assms(2,3) by (rule conjI)
  then show ?thesis by (simp add: binary64_exponent_def)
qed

lemma fl_eval:
  assumes "x \<noteq> 0" and "2 ^ 52 * pow2 e \<le> \<bar>x\<bar>" and "\<bar>x\<bar> < 2 ^ 53 * pow2 e"
  shows "fl x = of_int (round_half_even (x / pow2 e)) * pow2 e"
  using assms(1) by (simp add: fl_def binary64_exponent_eq[OF assms])

lemma fl_zero: "fl 0 = 0"
  by (simp add: fl_def)

lemma fl_pos:
  assumes "0 < x"
  shows "0 < fl x"
proof -
  let ?e = "binary64_exponent x"
  have a: "0 < \<bar>x\<bar>" using assms by simp
  have "\<lfloor>log 2 \<bar>x\<bar>\<rfloor> = ?e + 52" by (simp add: binary64_exponent_def)
  then have "(2::real) powr real_of_int (?e + 52) \<le> \<bar>x\<bar>"
    using floor_log_eq_powr_iff[OF a, of 2 "?e + 52"] by simp
  then have "2 ^ 52 * pow2 ?e \<le> x"
    using assms by (simp add: pow2_powr powr_add)
  then have "2 ^ 52 \<le> x / pow2 ?e"
    using pow2_pos[of ?e] by (simp add: pos_le_divide_eq)
  then have "(2 ^ 52 :: int) \<le> \<lfloor>x / pow2 ?e\<rfloor>"
    by (simp add: le_floor_iff)
  moreover have "(0::int) < 2 ^ 52" by simp
  ultimately have "0 < round_half_even (x / pow2 ?e)"
    using round_half_even_ge_floor[of "x / pow2 ?e"] by linarith
  then show ?thesis
    using assms pow2_pos[of ?e] by (simp add: fl_def)
qed

lemma fl_nonneg: "0 \<le> x \<Longrightarrow> 0 \<le> fl x"
  using fl_pos[of x] by (cases "x = 0") (simp_all add: fl_zero less_eq_real_def)

lemma fl_zero_iff: "0 \<le> x \<Longrightarrow> (fl x = 0) = (x = 0)"
  using fl_pos[of x] by (cases "x = 0") (auto simp: fl_zero)


text \<open>Sums of non-negative floats.\<close>

lemma float_sum_from_nonneg:
  assumes "0 \<le> acc" and "\<forall>x\<in>set xs. 0 \<le> x"
  shows "0 \<le> foldl float_add acc xs
       \<and> (foldl float_add acc xs = 0) = (acc = 0 \<and> (\<forall>x\<in>set xs. x = 0))"
  using assms
proof (induction xs arbitrary: acc)
  case Nil
  then show ?case by simp
next
  case (Cons x xs)
  have x: "0 \<le> x" using Cons.prems(2) by simp
  have s: "0 \<le> acc + x" using Cons.prems(1) x by simp
  have a: "0 \<le> float_add acc x" using s by (simp add: float_add_def fl_nonneg)
  have z: "(float_add acc x = 0) = (acc = 0 \<and> x = 0)"
    using Cons.prems(1) x fl_zero_iff[OF s] by (simp add: float_add_def add_nonneg_eq_0_iff)
  have rest: "\<forall>y\<in>set xs. 0 \<le> y" using Cons.prems(2) by simp
  from Cons.IH[OF a rest] z show ?case by auto
qed

lemma float_sum_nonneg:
  assumes "\<forall>x\<in>set xs. 0 \<le> x"
  shows "0 \<le> float_sum xs \<and> (float_sum xs = 0) = (\<forall>x\<in>set xs. x = 0)"
  using float_sum_from_nonneg[OF _ assms, of 0] by (simp add: float_sum_def)

lemma float_truediv_Inr:
  assumes "float_truediv x y = Inr q"
  shows "y \<noteq> 0 \<and> q = fl (x / y)"
  using assms by (simp add: float_truediv_def split: if_splits)

text \<open>What the metrics need of the built-in sum; \<open>float_sum\<close> has it.\<close>

lemma float_mean_zero_iff:
  assumes sum_ok: "\<And>ys. \<forall>y\<in>set ys. 0 \<le> y \<Longrightarrow>
                     0 \<le> py_sum ys \<and> (py_sum ys = 0) = (\<forall>y\<in>set ys. y = 0)"
    and "\<forall>x\<in>set xs. 0 \<le> x" and "xs \<noteq> []"
  shows "0 \<le> fl (py_sum (map fl xs) / fl (real (length xs)))
       \<and> (fl (py_sum (map fl xs) / fl (real (length xs))) = 0) = (\<forall>x\<in>set xs. x = 0)"
proof -
  have n: "0 < fl (real (length xs))"
    using assms(3) by (intro fl_pos) simp
  have nn: "\<forall>y\<in>set (map fl xs). 0 \<le> y"
    using assms(2) by (auto intro: fl_nonneg)
  note s = sum_ok[OF nn]
  have q: "0 \<le> py_sum (map fl xs) / fl (real (length xs))"
    using s n by simp
  have "(py_sum (map fl xs) = 0) = (\<forall>x\<in>set xs. x = 0)"
    using s assms(2) by (auto simp: fl_zero_iff fl_zero)
  then have "(py_sum (map fl xs) / fl (real (length xs)) = 0) = (\<forall>x\<in>set xs. x = 0)"
    using n by simp
  then show ?thesis
    using fl_nonneg[OF q] fl_zero_iff[OF q] by simp
qed

section \<open>The metrics\<close>

lemma calculate_metrics_accuracies:
  assumes "calculate_metrics py_sum st n = Inr a"
  shows "0 < n \<and> exact_accuracy a = real (exact_matches st) / real n
       \<and> procedure_accuracy a = real (procedure_matches st) / real n
       \<and> condition_accuracy a = real (condition_matches st) / real n"
  using assms
  by (auto simp: calculate_metrics_def py_div_def split: if_splits sum.splits)

lemma calculate_metrics_averages:
  assumes "calculate_metrics py_sum st n = Inr a"
  shows "procedure_precision_scores st \<noteq> [] \<and> procedure_recall_scores st \<noteq> []
       \<and> procedure_precision a =
           fl (py_sum (map fl (procedure_precision_scores st))
               / fl (real (length (procedure_precision_scores st))))
       \<and> procedure_recall a =
           fl (py_sum (map fl (procedure_recall_scores st))
               / fl (real (length (procedure_recall_scores st))))
       \<and> (if float_add (procedure_precision a) (procedure_recall a) > 0
           then procedure_f1 a =
                  fl (float_mul 2 (float_mul (procedure_precision a) (procedure_recall a))
                      / float_add (procedure_precision a) (procedure_recall a))
           else procedure_f1 a = 0)"
proof -
  from assms obtain P where
    P: "float_truediv (py_sum (map fl (procedure_precision_scores st)))
          (fl (real (length (procedure_precision_scores st)))) = Inr P"
    by (auto simp: calculate_metrics_def split: sum.splits)
  from assms P obtain R where
    R: "float_truediv (py_sum (map fl (procedure_recall_scores st)))
          (fl (real (length (procedure_recall_scores st)))) = Inr R"
    by (auto simp: calculate_metrics_def split: sum.splits)
  from assms P R obtain f1 where
    F: "(if float_add P R > 0
         then float_truediv (float_mul 2 (float_mul P R)) (float_add P R)
         else Inr 0) = Inr f1"
    and a: "procedure_precision a = P" "procedure_recall a = R" "procedure_f1 a = f1"
    by (auto simp: calculate_metrics_def split: sum.splits)
  note p = float_truediv_Inr[OF P] and r = float_truediv_Inr[OF R]
  have ne: "procedure_precision_scores st \<noteq> []" "procedure_recall_scores st \<noteq> []"
    using p r by (auto simp: fl_zero)
  have f: "if float_add P R > 0
           then f1 = fl (float_mul 2 (float_mul P R) / float_add P R)
           else f1 = 0"
    using F by (auto simp: float_truediv_def split: if_splits)
  show ?thesis
    unfolding a using ne p r f by simp
qed

lemma analyze_desc_type_Inr:
  assumes "analyze_desc_type json_loads literal_eval repr py_sum variant_to_procedure variant_to_condition
             df_results desc_type = Inr a"
  shows "\<exists>st. analyze_rows json_loads literal_eval repr variant_to_procedure variant_to_condition
             initial_state (filter (\<lambda>row. description_type row = desc_type) df_results) = Inr st
          \<and> calculate_metrics py_sum st
               (length (filter (\<lambda>row. description_type row = desc_type) df_results)) = Inr a"
  using assms by (auto simp: analyze_desc_type_def Let_def split: sum.splits)

lemma paired_scores_zero:
  assumes "list_all2 (\<lambda>p r. 0 \<le> p \<and> 0 \<le> r \<and> (0 < p) = (0 < r)) (ps :: real list) (rs :: real list)"
  shows "(\<forall>p\<in>set ps. 0 \<le> p) \<and> (\<forall>r\<in>set rs. 0 \<le> r)
       \<and> (\<forall>p\<in>set ps. p = 0) = (\<forall>r\<in>set rs. r = 0)"
  using assms
proof (induction rule: list_all2_induct)
  case Nil
  then show ?case by simp
next
  case (Cons p ps r rs)
  then show ?case by auto
qed

text \<open>The F1 expression on two non-negative floats that are zero together.\<close>

lemma float_f1_zero_iff:
  assumes "0 \<le> P" and "0 \<le> R" and "(P = 0) = (R = 0)"
    and "if float_add P R > 0
         then f1 = fl (float_mul 2 (float_mul P R) / float_add P R)
         else f1 = 0"
  shows "(f1 = 0) = (P = 0 \<and> R = 0)"
proof (cases "float_add P R > 0")
  case True
  have "P + R \<noteq> 0"
    using True by (auto simp: float_add_def fl_zero)
  then have pos: "0 < P" "0 < R"
    using assms(1,2,3) by auto
  have "0 < float_mul P R"
    using pos by (simp add: float_mul_def fl_pos)
  then have "0 < float_mul 2 (float_mul P R)"
    by (simp add: float_mul_def fl_pos)
  then have "0 < float_mul 2 (float_mul P R) / float_add P R"
    using True by simp
  then have "0 < f1"
    using assms(4) True by (simp add: fl_pos)
  then show ?thesis using pos by simp
next
  case False
  have "\<not> 0 < P + R"
    using False fl_pos[of "P + R"] by (auto simp: float_add_def)
  then have "P = 0 \<and> R = 0"
    using assms(1,2) by linarith
  then show ?thesis using assms(4) False by simp
qed

lemma analyze_desc_types_raises:
  assumes "analyze_desc_type json_loads literal_eval repr py_sum variant_to_procedure variant_to_condition
             df_results desc_type = Inl e"
    and "desc_type \<in> set desc_types"
  shows "\<exists>e'. analyze_desc_types json_loads literal_eval repr py_sum variant_to_procedure variant_to_condition
             df_results desc_types = Inl e'"
  using assms(2)
proof (induction desc_types)
  case Nil
  then show ?case by simp
next
  case (Cons d ds)
  show ?case
  proof (cases "d = desc_type")
    case True
    then show ?thesis using assms(1) by simp
  next
    case False
    with Cons show ?thesis by (auto split: sum.splits)
  qed
qed

section \<open>The example scenario, evaluated\<close>

lemma scenario_extract_A:
  "extract_procedures scenario_json_loads (\<lambda>s. None) (\<lambda>v. [])
     (get_procedure_json scenario_variant_to_procedure ''A'') = Inr {KStr ''X'', KStr ''Y''}"
  by (simp add: extract_procedures_def safe_parse_json_def scenario_json_loads_def
      get_procedure_json_def scenario_variant_to_procedure_def extract_step_def set_add_def
      insert_commute)

lemma scenario_extract_B:
  "extract_procedures scenario_json_loads (\<lambda>s. None) (\<lambda>v. [])
     (get_procedure_json scenario_variant_to_procedure ''B'') = Inr {KStr ''X'', KStr ''Z''}"
  by (simp add: extract_procedures_def safe_parse_json_def scenario_json_loads_def
      get_procedure_json_def scenario_variant_to_procedure_def extract_step_def set_add_def
      insert_commute)

lemma scenario_extract_N:
  "extract_procedures scenario_json_loads (\<lambda>s. None) (\<lambda>v. [])
     (get_procedure_json scenario_variant_to_procedure ''N'') = Inl TypeError"
  by (simp add: extract_procedures_def safe_parse_json_def scenario_json_loads_def
      get_procedure_json_def scenario_variant_to_procedure_def)

lemma scenario_overlap:
  "{KStr ''X'', KStr ''Y''} \<inter> {KStr ''X'', KStr ''Z''} = {KStr ''X''}"
  by auto

lemma scenario_step_AB:
  "row_step scenario_json_loads (\<lambda>s. None) (\<lambda>v. []) scenario_variant_to_procedure
     scenario_variant_to_condition st (scenario_row ''A'' ''B'') =
   Inr (st\<lparr>procedure_matches := procedure_matches st + 1,
           condition_matches := condition_matches st + 1,
           procedure_precision_scores := procedure_precision_scores st @ [1 / 2],
           procedure_recall_scores := procedure_recall_scores st @ [1 / 2]\<rparr>)"
proof -
  have ne: "original_variant (scenario_row ''A'' ''B'') \<noteq> retrieved_variant (scenario_row ''A'' ''B'')"
    by (simp add: scenario_row_def)
  have a: "extract_procedures scenario_json_loads (\<lambda>s. None) (\<lambda>v. [])
     (get_procedure_json scenario_variant_to_procedure (original_variant (scenario_row ''A'' ''B'')))
       = Inr {KStr ''X'', KStr ''Y''}"
    using scenario_extract_A by (simp add: scenario_row_def)
  have b: "extract_procedures scenario_json_loads (\<lambda>s. None) (\<lambda>v. [])
     (get_procedure_json scenario_variant_to_procedure (retrieved_variant (scenario_row ''A'' ''B'')))
       = Inr {KStr ''X'', KStr ''Z''}"
    using scenario_extract_B by (simp add: scenario_row_def)
  have c: "same_condition (scenario_variant_to_condition (original_variant (scenario_row ''A'' ''B'')))
            (scenario_variant_to_condition (retrieved_variant (scenario_row ''A'' ''B'')))"
    by (simp add: same_condition_def scenario_variant_to_condition_def scenario_row_def)
  show ?thesis
    unfolding row_step_non_exact[OF ne a b] scenario_overlap
    using c by simp
qed

lemma scenario_step_AA:
  "row_step scenario_json_loads (\<lambda>s. None) (\<lambda>v. []) scenario_variant_to_procedure
     scenario_variant_to_condition st (scenario_row ''A'' ''A'') =
   Inr (st\<lparr>exact_matches := exact_matches st + 1,
           procedure_matches := procedure_matches st + 1,
           condition_matches := condition_matches st + 1,
           procedure_precision_scores := procedure_precision_scores st @ [1],
           procedure_recall_scores := procedure_recall_scores st @ [1]\<rparr>)"
  by (simp add: row_step_def scenario_row_def)

lemma scenario_extract_E:
  "extract_procedures scenario_json_loads (\<lambda>s. None) (\<lambda>v. [])
     (get_procedure_json scenario_variant_to_procedure ''E'') = Inr {}"
  by (simp add: extract_procedures_def safe_parse_json_def scenario_json_loads_def
      get_procedure_json_def scenario_variant_to_procedure_def)

lemma scenario_step_AE:
  "row_step scenario_json_loads (\<lambda>s. None) (\<lambda>v. []) scenario_variant_to_procedure
     scenario_variant_to_condition st (scenario_row ''A'' ''E'') =
   Inr (st\<lparr>procedure_precision_scores := procedure_precision_scores st @ [0],
           procedure_recall_scores := procedure_recall_scores st @ [0]\<rparr>)"
proof -
  have ne: "original_variant (scenario_row ''A'' ''E'') \<noteq> retrieved_variant (scenario_row ''A'' ''E'')"
    by (simp add: scenario_row_def)
  have a: "extract_procedures scenario_json_loads (\<lambda>s. None) (\<lambda>v. [])
     (get_procedure_json scenario_variant_to_procedure (original_variant (scenario_row ''A'' ''E'')))
       = Inr {KStr ''X'', KStr ''Y''}"
    using scenario_extract_A by (simp add: scenario_row_def)
  have b: "extract_procedures scenario_json_loads (\<lambda>s. None) (\<lambda>v. [])
     (get_procedure_json scenario_variant_to_procedure (retrieved_variant (scenario_row ''A'' ''E'')))
       = Inr {}"
    using scenario_extract_E by (simp add: scenario_row_def)
  have c: "\<not> same_condition (scenario_variant_to_condition (original_variant (scenario_row ''A'' ''E'')))
            (scenario_variant_to_condition (retrieved_variant (scenario_row ''A'' ''E'')))"
    by (simp add: same_condition_def scenario_variant_to_condition_def scenario_row_def)
  show ?thesis
    unfolding row_step_non_exact[OF ne a b]
    using c by simp
qed

text \<open>Binary64 values that occur in the examples.\<close>

lemma fl_one: "fl 1 = 1"
  by (subst fl_eval[where e = "-52"]) (simp_all add: pow2_def round_half_even_def Let_def)

lemma fl_two: "fl 2 = 2"
  by (subst fl_eval[where e = "-51"]) (simp_all add: pow2_def round_half_even_def Let_def)

lemma fl_ten: "fl 10 = 10"
  by (subst fl_eval[where e = "-49"]) (simp_all add: pow2_def round_half_even_def Let_def)

lemma fl_half: "fl (1 / 2) = 1 / 2"
  by (subst fl_eval[where e = "-53"]) (simp_all add: pow2_def round_half_even_def Let_def)

lemma fl_three_halves: "fl (3 / 2) = 3 / 2"
  by (subst fl_eval[where e = "-52"]) (simp_all add: pow2_def round_half_even_def Let_def)

lemma fl_three_quarters: "fl (3 / 4) = 3 / 4"
  by (subst fl_eval[where e = "-53"]) (simp_all add: pow2_def round_half_even_def Let_def)

lemma fl_nine_sixteenths: "fl (9 / 16) = 9 / 16"
  by (subst fl_eval[where e = "-53"]) (simp_all add: pow2_def round_half_even_def Let_def)

lemma fl_nine_eighths: "fl (9 / 8) = 9 / 8"
  by (subst fl_eval[where e = "-52"]) (simp_all add: pow2_def round_half_even_def Let_def)

lemma fl_tenth: "fl (1 / 10) = 3602879701896397 / 36028797018963968"
  by (subst fl_eval[where e = "-56"]) (simp_all add: pow2_def round_half_even_def Let_def)

lemma tenth_product:
  "float_mul (3602879701896397 / 36028797018963968) (3602879701896397 / 36028797018963968)
     = 1441151880758559 / 144115188075855872"
  unfolding float_mul_def
  by (subst fl_eval[where e = "-59"]) (simp_all add: pow2_def round_half_even_def Let_def)

lemma tenth_product_doubled:
  "float_mul 2 (1441151880758559 / 144115188075855872) = 1441151880758559 / 72057594037927936"
  unfolding float_mul_def
  by (subst fl_eval[where e = "-58"]) (simp_all add: pow2_def round_half_even_def Let_def)

lemma tenth_sum:
  "float_add (3602879701896397 / 36028797018963968) (3602879701896397 / 36028797018963968)
     = 3602879701896397 / 18014398509481984"
  unfolding float_add_def
  by (subst fl_eval[where e = "-55"]) (simp_all add: pow2_def round_half_even_def Let_def)

lemma tenth_quotient:
  "fl ((1441151880758559 / 72057594037927936) / (3602879701896397 / 18014398509481984))
     = 7205759403792795 / 72057594037927936"
  by (subst fl_eval[where e = "-56"]) (simp_all add: pow2_def round_half_even_def Let_def)

lemma calculate_metrics_value:
  assumes "0 < n"
    and "float_truediv (py_sum (map fl (procedure_precision_scores st)))
           (fl (real (length (procedure_precision_scores st)))) = Inr P"
    and "float_truediv (py_sum (map fl (procedure_recall_scores st)))
           (fl (real (length (procedure_recall_scores st)))) = Inr R"
    and "0 < float_add P R"
    and "float_truediv (float_mul 2 (float_mul P R)) (float_add P R) = Inr F"
  shows "calculate_metrics py_sum st n =
     Inr \<lparr>analysis_total_queries = n,
          analysis_exact_matches = exact_matches st,
          analysis_procedure_matches = procedure_matches st,
          analysis_condition_matches = condition_matches st,
          exact_accuracy = real (exact_matches st) / real n,
          procedure_accuracy = real (procedure_matches st) / real n,
          condition_accuracy = real (condition_matches st) / real n,
          procedure_precision = P, procedure_recall = R, procedure_f1 = F\<rparr>"
  using assms(1) by (simp add: calculate_metrics_def py_div_def assms(2-5))

lemma scenario_analysis:
  "analyze_desc_type scenario_json_loads (\<lambda>s. None) (\<lambda>v. []) float_sum scenario_variant_to_procedure
     scenario_variant_to_condition [scenario_row ''A'' ''A'', scenario_row ''A'' ''B''] ''desc_1'' =
   Inr \<lparr>analysis_total_queries = 2, analysis_exact_matches = 1,
        analysis_procedure_matches = 2, analysis_condition_matches = 2,
        exact_accuracy = 1 / 2, procedure_accuracy = 1, condition_accuracy = 1,
        procedure_precision = 3 / 4, procedure_recall = 3 / 4, procedure_f1 = 3 / 4\<rparr>"
proof -
  let ?st = "\<lparr>exact_matches = 1, procedure_matches = 2, condition_matches = 2,
          procedure_precision_scores = [1, 1 / 2],
          procedure_recall_scores = [1, 1 / 2]\<rparr>"
  have f: "filter (\<lambda>row. description_type row = ''desc_1'')
             [scenario_row ''A'' ''A'', scenario_row ''A'' ''B'']
           = [scenario_row ''A'' ''A'', scenario_row ''A'' ''B'']"
    by (simp add: scenario_row_def)
  have run: "analyze_rows scenario_json_loads (\<lambda>s. None) (\<lambda>v. []) scenario_variant_to_procedure
     scenario_variant_to_condition initial_state
     [scenario_row ''A'' ''A'', scenario_row ''A'' ''B''] = Inr ?st"
    by (simp add: scenario_step_AA scenario_step_AB initial_state_def)
  have m: "float_truediv (float_sum (map fl [1, 1 / 2])) (fl (real (length [1, 1 / 2 :: real])))
            = Inr (3 / 4)"
    by (simp add: float_sum_def float_add_def float_truediv_def fl_one fl_half fl_three_halves
        fl_two fl_three_quarters)
  have h: "float_add (3 / 4) (3 / 4) = 3 / 2" "float_mul (3 / 4) (3 / 4) = 9 / 16"
    "float_mul 2 (9 / 16) = 9 / 8" "float_truediv (9 / 8) (3 / 2) = Inr (3 / 4)"
    by (simp_all add: float_add_def float_mul_def float_truediv_def fl_three_halves
        fl_nine_sixteenths fl_nine_eighths fl_three_quarters)
  have met: "calculate_metrics float_sum ?st 2 =
     Inr \<lparr>analysis_total_queries = 2, analysis_exact_matches = 1,
        analysis_procedure_matches = 2, analysis_condition_matches = 2,
        exact_accuracy = 1 / 2, procedure_accuracy = 1, condition_accuracy = 1,
        procedure_precision = 3 / 4, procedure_recall = 3 / 4, procedure_f1 = 3 / 4\<rparr>"
    by (subst calculate_metrics_value[where py_sum = float_sum and P = "3 / 4" and R = "3 / 4"
          and F = "3 / 4"])
       (use m in \<open>simp_all add: h\<close>)
  have len: "length [scenario_row ''A'' ''A'', scenario_row ''A'' ''B''] = 2" by simp
  show ?thesis
    unfolding analyze_desc_type_def f Let_def run len using met by simp
qed

lemma tenth_analysis:
  "analyze_desc_type scenario_json_loads (\<lambda>s. None) (\<lambda>v. []) float_sum scenario_variant_to_procedure
     scenario_variant_to_condition tenth_rows ''desc_1'' =
   Inr \<lparr>analysis_total_queries = 10, analysis_exact_matches = 1,
        analysis_procedure_matches = 1, analysis_condition_matches = 1,
        exact_accuracy = 1 / 10, procedure_accuracy = 1 / 10, condition_accuracy = 1 / 10,
        procedure_precision = 3602879701896397 / 36028797018963968,
        procedure_recall = 3602879701896397 / 36028797018963968,
        procedure_f1 = 7205759403792795 / 72057594037927936\<rparr>"
proof -
  let ?st = "\<lparr>exact_matches = 1, procedure_matches = 1, condition_matches = 1,
          procedure_precision_scores = [1, 0, 0, 0, 0, 0, 0, 0, 0, 0],
          procedure_recall_scores = [1, 0, 0, 0, 0, 0, 0, 0, 0, 0]\<rparr>"
  have f: "filter (\<lambda>row. description_type row = ''desc_1'') tenth_rows = tenth_rows"
    by (simp add: tenth_rows_def scenario_row_def)
  have run: "analyze_rows scenario_json_loads (\<lambda>s. None) (\<lambda>v. []) scenario_variant_to_procedure
     scenario_variant_to_condition initial_state tenth_rows = Inr ?st"
    by (simp add: tenth_rows_def scenario_step_AA scenario_step_AE initial_state_def)
  have m: "float_truediv (float_sum (map fl [1, 0, 0, 0, 0, 0, 0, 0, 0, 0]))
             (fl (real (length [1, 0, 0, 0, 0, 0, 0, 0, 0, 0 :: real])))
           = Inr (3602879701896397 / 36028797018963968)"
    by (simp add: float_sum_def float_add_def float_truediv_def fl_one fl_zero fl_ten fl_tenth)
  have q: "float_truediv
             (float_mul 2 (float_mul (3602879701896397 / 36028797018963968)
                                      (3602879701896397 / 36028797018963968)))
             (float_add (3602879701896397 / 36028797018963968)
                        (3602879701896397 / 36028797018963968))
           = Inr (7205759403792795 / 72057594037927936)"
    unfolding tenth_product tenth_product_doubled tenth_sum float_truediv_def tenth_quotient
    by simp
  have len: "length tenth_rows = 10" by (simp add: tenth_rows_def)
  have met: "calculate_metrics float_sum ?st 10 =
     Inr \<lparr>analysis_total_queries = 10, analysis_exact_matches = 1,
        analysis_procedure_matches = 1, analysis_condition_matches = 1,
        exact_accuracy = 1 / 10, procedure_accuracy = 1 / 10, condition_accuracy = 1 / 10,
        procedure_precision = 3602879701896397 / 36028797018963968,
        procedure_recall = 3602879701896397 / 36028797018963968,
        procedure_f1 = 7205759403792795 / 72057594037927936\<rparr>"
    by (subst calculate_metrics_value[where py_sum = float_sum
          and P = "3602879701896397 / 36028797018963968"
          and R = "3602879701896397 / 36028797018963968"
          and F = "7205759403792795 / 72057594037927936"])
       (use m q in \<open>simp_all add: tenth_sum\<close>)
  show ?thesis
    unfolding analyze_desc_type_def f Let_def run len using met by simp
qed

section \<open>The loop of the evaluator and the rows of the index\<close>

lemma eval_step_no_result:
  assumes "cells desc_type = Some synthetic_desc"
    and "fetchone (query_embedding encode synthetic_desc) = None"
  shows "eval_step py_round encode fetchone desc_type st (idx, orig_variant, cells) =
         st\<lparr>total_queries := total_queries st + 1\<rparr>"
  using assms by (simp add: eval_step_def)

lemma eval_step_missing:
  assumes "cells desc_type = None"
  shows "eval_step py_round encode fetchone desc_type st (idx, orig_variant, cells) = st"
  using assms by (simp add: eval_step_def)

lemma eval_step_query:
  assumes "cells desc_type = Some synthetic_desc"
  shows "eval_step py_round encode fetchone desc_type st (idx, orig_variant, cells) =
     (case fetchone (encode synthetic_desc) of
        None \<Rightarrow> st\<lparr>total_queries := total_queries st + 1\<rparr>
      | Some (retr_condition, retr_variant, distance) \<Rightarrow>
          st\<lparr>total_queries := total_queries st + 1,
             distances := distances st @ [distance],
             correct_matches := correct_matches st + (if retr_variant = orig_variant then 1 else 0),
             all_results := all_results st @
               [\<lparr>description_type = desc_type,
                 query_id = idx + 1,
                 original_variant = orig_variant,
                 synthetic_description = synthetic_desc,
                 retrieved_condition = retr_condition,
                 retrieved_variant = retr_variant,
                 exact_match = (if retr_variant = orig_variant then ''Yes'' else ''No''),
                 euclidean_distance = py_round distance 6\<rparr>]\<rparr>)"
  using assms
  by (simp add: eval_step_def query_embedding_def Let_def split: option.splits prod.splits)

lemma eval_step_agree:
  assumes "correct_matches st = correct_matches st'"
    and "distances st = distances st'"
    and "all_results st = all_results st'"
  shows "correct_matches (eval_step py_round encode fetchone desc_type st r)
           = correct_matches (eval_step py_round encode fetchone desc_type st' r)
       \<and> distances (eval_step py_round encode fetchone desc_type st r)
           = distances (eval_step py_round encode fetchone desc_type st' r)
       \<and> all_results (eval_step py_round encode fetchone desc_type st r)
           = all_results (eval_step py_round encode fetchone desc_type st' r)"
  using assms
  by (cases r) (simp add: eval_step_def Let_def split: option.splits prod.splits)

lemma eval_rows_agree:
  assumes "correct_matches st = correct_matches st'"
    and "distances st = distances st'"
    and "all_results st = all_results st'"
  shows "correct_matches (eval_rows py_round encode fetchone desc_type st rs)
           = correct_matches (eval_rows py_round encode fetchone desc_type st' rs)
       \<and> distances (eval_rows py_round encode fetchone desc_type st rs)
           = distances (eval_rows py_round encode fetchone desc_type st' rs)
       \<and> all_results (eval_rows py_round encode fetchone desc_type st rs)
           = all_results (eval_rows py_round encode fetchone desc_type st' rs)"
  using assms
proof (induction rs arbitrary: st st')
  case Nil
  then show ?case by (simp add: eval_rows_def)
next
  case (Cons r rs)
  from eval_step_agree[OF Cons.prems, of py_round encode fetchone desc_type r]
  have "correct_matches (eval_step py_round encode fetchone desc_type st r)
           = correct_matches (eval_step py_round encode fetchone desc_type st' r)"
    "distances (eval_step py_round encode fetchone desc_type st r)
           = distances (eval_step py_round encode fetchone desc_type st' r)"
    "all_results (eval_step py_round encode fetchone desc_type st r)
           = all_results (eval_step py_round encode fetchone desc_type st' r)"
    by simp_all
  from Cons.IH[OF this] show ?case by (simp add: eval_rows_def)
qed

lemma eval_rows_append:
  "eval_rows py_round encode fetchone desc_type st (rs1 @ rs2) =
   eval_rows py_round encode fetchone desc_type (eval_rows py_round encode fetchone desc_type st rs1) rs2"
  by (simp add: eval_rows_def)

lemma eval_rows_Cons:
  "eval_rows py_round encode fetchone desc_type st (r # rs) =
   eval_rows py_round encode fetchone desc_type (eval_step py_round encode fetchone desc_type st r) rs"
  by (simp add: eval_rows_def)

lemma enumerate_around:
  "enumerate 0 (earlier @ c # later) =
   enumerate 0 earlier @ (length earlier, c) # enumerate (Suc (length earlier)) later"
  by (simp add: enumerate_append_eq)

text \<open>
  A query without a result and a query whose description is missing leave the same
  matches, distances and detail rows at the end of the loop.
\<close>

lemma no_result_like_missing:
  assumes "cells desc_type = Some synthetic_desc"
    and "fetchone (query_embedding encode synthetic_desc) = None"
  shows "correct_matches (eval_rows py_round encode fetchone desc_type st
                            (enumerate 0 (earlier @ (orig_variant, cells) # later)))
           = correct_matches (eval_rows py_round encode fetchone desc_type st
                            (enumerate 0 (earlier @ (orig_variant, cells(desc_type := None)) # later)))
       \<and> distances (eval_rows py_round encode fetchone desc_type st
                            (enumerate 0 (earlier @ (orig_variant, cells) # later)))
           = distances (eval_rows py_round encode fetchone desc_type st
                            (enumerate 0 (earlier @ (orig_variant, cells(desc_type := None)) # later)))
       \<and> all_results (eval_rows py_round encode fetchone desc_type st
                            (enumerate 0 (earlier @ (orig_variant, cells) # later)))
           = all_results (eval_rows py_round encode fetchone desc_type st
                            (enumerate 0 (earlier @ (orig_variant, cells(desc_type := None)) # later)))"
proof -
  let ?mid = "eval_rows py_round encode fetchone desc_type st (enumerate 0 earlier)"
  have step: "eval_step py_round encode fetchone desc_type ?mid (length earlier, orig_variant, cells) =
         ?mid\<lparr>total_queries := total_queries ?mid + 1\<rparr>"
    using assms by (rule eval_step_no_result)
  have skip: "eval_step py_round encode fetchone desc_type ?mid
                (length earlier, orig_variant, cells(desc_type := None)) = ?mid"
    by (rule eval_step_missing) simp
  show ?thesis
    unfolding enumerate_around eval_rows_append eval_rows_Cons step skip
    by (rule eval_rows_agree) simp_all
qed

lemma embed_acr_nth:
  assumes "i < length df"
  shows "embed_acr encode df ! i =
     \<lparr>col_id = i + 1,
      col_condition = Condition (df ! i),
      col_variant = Variant (df ! i),
      col_procedure = Procedure (df ! i),
      col_appropriateness = Appropriateness_Category (df ! i),
      col_combined_text = combined_text (df ! i),
      col_embedding = encode (combined_text (df ! i))\<rparr>"
  using assms by (simp add: embed_acr_def Let_def nth_enumerate_eq)

lemma combined_text_longer: "length (combined_text row) = length (Variant row) + length (Condition row) + 33"
  by (simp add: combined_text_def)

lemma combined_text_not_variant: "combined_text row \<noteq> Variant row"
proof
  assume "combined_text row = Variant row"
  then have "length (combined_text row) = length (Variant row)" by simp
  then show False by (simp add: combined_text_longer)
qed

section \<open>Claims about the partial-credit scorer\<close>

text \<open>
  Claim C2. When the expected and the retrieved variant of a row are equal, the row
  counts as an exact match, a procedure match and a condition match, and 1.0 is appended
  to the precision and to the recall scores. Nothing else is evaluated: the result does
  not depend on the procedure cells, the parsers or the condition map.
\<close>

theorem exact_match_short_circuit:
  assumes "original_variant row = retrieved_variant row"
  shows "row_step json_loads literal_eval repr variant_to_procedure variant_to_condition st row =
     Inr (st\<lparr>exact_matches := exact_matches st + 1,
             procedure_matches := procedure_matches st + 1,
             condition_matches := condition_matches st + 1,
             procedure_precision_scores := procedure_precision_scores st @ [1],
             procedure_recall_scores := procedure_recall_scores st @ [1]\<rparr>)"
  using assms by (simp add: row_step_def)

theorem exact_match_short_circuit_witness:
  "original_variant (scenario_row ''N'' ''N'') = retrieved_variant (scenario_row ''N'' ''N'')
   \<and> extract_procedures scenario_json_loads (\<lambda>s. None) (\<lambda>v. [])
         (get_procedure_json scenario_variant_to_procedure ''N'') = Inl TypeError
   \<and> row_step scenario_json_loads (\<lambda>s. None) (\<lambda>v. []) scenario_variant_to_procedure
         scenario_variant_to_condition initial_state (scenario_row ''N'' ''N'') =
       Inr \<lparr>exact_matches = 1, procedure_matches = 1, condition_matches = 1,
            procedure_precision_scores = [1], procedure_recall_scores = [1]\<rparr>"
proof -
  have h: "original_variant (scenario_row ''N'' ''N'') = retrieved_variant (scenario_row ''N'' ''N'')"
    by (simp add: scenario_row_def)
  show ?thesis
    using h scenario_extract_N
      exact_match_short_circuit [OF h, of scenario_json_loads "\<lambda>s. None" "\<lambda>v. []"
        scenario_variant_to_procedure scenario_variant_to_condition initial_state]
    by (simp add: initial_state_def)
qed

text \<open>
  Claim C3. For a row that is not an exact match, with \<open>P_expected\<close> and \<open>P_retrieved\<close>
  the extracted procedure sets of the two variants: if either set is empty, 0.0 is
  appended to the precision and to the recall scores and the row is no procedure match;
  otherwise the row is a procedure match exactly when the intersection has an element,
  the precision is the size of the intersection over the size of \<open>P_retrieved\<close> and the
  recall is the size of the intersection over the size of \<open>P_expected\<close>.
\<close>

theorem procedure_overlap_scores:
  assumes "original_variant row \<noteq> retrieved_variant row"
    and "extract_procedures json_loads literal_eval repr
           (get_procedure_json variant_to_procedure (original_variant row)) = Inr P_expected"
    and "extract_procedures json_loads literal_eval repr
           (get_procedure_json variant_to_procedure (retrieved_variant row)) = Inr P_retrieved"
  shows "\<exists>st'. row_step json_loads literal_eval repr variant_to_procedure variant_to_condition st row = Inr st'
     \<and> exact_matches st' = exact_matches st
     \<and> procedure_matches st' = procedure_matches st +
          (if P_expected = {} \<or> P_retrieved = {} then 0
           else if 0 < card (P_expected \<inter> P_retrieved) then 1 else 0)
     \<and> procedure_precision_scores st' = procedure_precision_scores st @
          [if P_expected = {} \<or> P_retrieved = {} then 0
           else real (card (P_expected \<inter> P_retrieved)) / real (card P_retrieved)]
     \<and> procedure_recall_scores st' = procedure_recall_scores st @
          [if P_expected = {} \<or> P_retrieved = {} then 0
           else real (card (P_expected \<inter> P_retrieved)) / real (card P_expected)]"
proof -
  have "finite (P_expected \<inter> P_retrieved)"
    using assms(2) by (auto dest: extract_procedures_finite)
  then have "(0 < card (P_expected \<inter> P_retrieved)) = (P_expected \<inter> P_retrieved \<noteq> {})"
    by (simp add: card_gt_0_iff)
  then show ?thesis
    using row_step_non_exact[OF assms, of variant_to_condition st] by auto
qed

theorem procedure_overlap_scores_witness:
  "original_variant (scenario_row ''A'' ''B'') \<noteq> retrieved_variant (scenario_row ''A'' ''B'')
   \<and> extract_procedures scenario_json_loads (\<lambda>s. None) (\<lambda>v. [])
         (get_procedure_json scenario_variant_to_procedure ''A'') = Inr {KStr ''X'', KStr ''Y''}
   \<and> extract_procedures scenario_json_loads (\<lambda>s. None) (\<lambda>v. [])
         (get_procedure_json scenario_variant_to_procedure ''B'') = Inr {KStr ''X'', KStr ''Z''}
   \<and> (\<exists>st'. row_step scenario_json_loads (\<lambda>s. None) (\<lambda>v. []) scenario_variant_to_procedure
                scenario_variant_to_condition initial_state (scenario_row ''A'' ''B'') = Inr st'
          \<and> exact_matches st' = 0
          \<and> procedure_matches st' = 1
          \<and> procedure_precision_scores st' = [1 / 2]
          \<and> procedure_recall_scores st' = [1 / 2])"
proof -
  have ne: "original_variant (scenario_row ''A'' ''B'') \<noteq> retrieved_variant (scenario_row ''A'' ''B'')"
    by (simp add: scenario_row_def)
  have a: "extract_procedures scenario_json_loads (\<lambda>s. None) (\<lambda>v. [])
     (get_procedure_json scenario_variant_to_procedure (original_variant (scenario_row ''A'' ''B'')))
       = Inr {KStr ''X'', KStr ''Y''}"
    using scenario_extract_A by (simp add: scenario_row_def)
  have b: "extract_procedures scenario_json_loads (\<lambda>s. None) (\<lambda>v. [])
     (get_procedure_json scenario_variant_to_procedure (retrieved_variant (scenario_row ''A'' ''B'')))
       = Inr {KStr ''X'', KStr ''Z''}"
    using scenario_extract_B by (simp add: scenario_row_def)
  show ?thesis
    using ne scenario_extract_A scenario_extract_B
      procedure_overlap_scores [OF ne a b, of scenario_variant_to_condition initial_state]
    by (simp add: scenario_overlap initial_state_def)
qed

text \<open>
  Claim C10. For every row the scorer processes, one precision and one recall score are
  appended, and the three conditions "the row is counted as a procedure match", "its
  precision is positive" and "its recall is positive" are equivalent.
\<close>

theorem procedure_match_iff_positive_scores:
  assumes "row_step json_loads literal_eval repr variant_to_procedure variant_to_condition st row = Inr st'"
  shows "\<exists>p r. procedure_precision_scores st' = procedure_precision_scores st @ [p]
     \<and> procedure_recall_scores st' = procedure_recall_scores st @ [r]
     \<and> (procedure_matches st' = procedure_matches st + 1 \<or> procedure_matches st' = procedure_matches st)
     \<and> (procedure_matches st' = procedure_matches st + 1) = (0 < p)
     \<and> (procedure_matches st' = procedure_matches st + 1) = (0 < r)
     \<and> (0 < p) = (0 < r)"
proof -
  from row_step_effect[OF assms] obtain e m c p r where
    st': "st' = st\<lparr>exact_matches := exact_matches st + e,
                    procedure_matches := procedure_matches st + m,
                    condition_matches := condition_matches st + c,
                    procedure_precision_scores := procedure_precision_scores st @ [p],
                    procedure_recall_scores := procedure_recall_scores st @ [r]\<rparr>"
    and b: "m \<le> 1" "(0 < p) = (m = 1)" "(0 < r) = (m = 1)"
    by blast
  have "m = 0 \<or> m = 1" using b(1) by auto
  then show ?thesis using st' b(2,3) by auto
qed

theorem procedure_match_iff_positive_scores_witness:
  "\<exists>st'. row_step scenario_json_loads (\<lambda>s. None) (\<lambda>v. []) scenario_variant_to_procedure
            scenario_variant_to_condition initial_state (scenario_row ''A'' ''B'') = Inr st'
      \<and> (\<exists>p r. procedure_precision_scores st' = procedure_precision_scores initial_state @ [p]
            \<and> procedure_recall_scores st' = procedure_recall_scores initial_state @ [r]
            \<and> (procedure_matches st' = procedure_matches initial_state + 1
                \<or> procedure_matches st' = procedure_matches initial_state)
            \<and> (procedure_matches st' = procedure_matches initial_state + 1) = (0 < p)
            \<and> (procedure_matches st' = procedure_matches initial_state + 1) = (0 < r)
            \<and> (0 < p) = (0 < r))"
proof -
  note h = scenario_step_AB [of initial_state]
  show ?thesis
    using procedure_match_iff_positive_scores [OF h] h by blast
qed

section \<open>Claims about the aggregated metrics\<close>

text \<open>
  Claim C4. Whenever the analysis of a description type returns its metrics, the procedure
  accuracy and the condition accuracy are at least the exact accuracy.
\<close>

theorem relaxed_accuracies_dominate_exact:
  assumes "analyze_desc_type json_loads literal_eval repr py_sum variant_to_procedure variant_to_condition
             df_results desc_type = Inr a"
  shows "exact_accuracy a \<le> procedure_accuracy a \<and> exact_accuracy a \<le> condition_accuracy a"
proof -
  let ?rows = "filter (\<lambda>row. description_type row = desc_type) df_results"
  from assms obtain st where
    run: "analyze_rows json_loads literal_eval repr variant_to_procedure variant_to_condition
             initial_state ?rows = Inr st"
    and met: "calculate_metrics py_sum st (length ?rows) = Inr a"
    by (auto simp: analyze_desc_type_def Let_def split: sum.splits)
  have le: "exact_matches st \<le> procedure_matches st" "exact_matches st \<le> condition_matches st"
    using analyze_rows_invariant[OF run] by (simp_all add: initial_state_def)
  note acc = calculate_metrics_accuracies[OF met]
  have "real (exact_matches st) / real (length ?rows) \<le> real (procedure_matches st) / real (length ?rows)"
    using le(1) by (intro divide_right_mono) simp_all
  moreover have "real (exact_matches st) / real (length ?rows) \<le> real (condition_matches st) / real (length ?rows)"
    using le(2) by (intro divide_right_mono) simp_all
  ultimately show ?thesis
    using acc by simp
qed

theorem relaxed_accuracies_dominate_exact_witness:
  "\<exists>a. analyze_desc_type scenario_json_loads (\<lambda>s. None) (\<lambda>v. []) float_sum scenario_variant_to_procedure
          scenario_variant_to_condition [scenario_row ''A'' ''A'', scenario_row ''A'' ''B'']
          ''desc_1'' = Inr a
      \<and> exact_accuracy a = 1 / 2 \<and> procedure_accuracy a = 1 \<and> condition_accuracy a = 1
      \<and> exact_accuracy a \<le> procedure_accuracy a \<and> exact_accuracy a \<le> condition_accuracy a"
  using scenario_analysis relaxed_accuracies_dominate_exact [OF scenario_analysis]
  by simp

text \<open>
  Claim C5, as amended. Whenever the analysis of a description type returns its metrics,
  the reported precision \<open>P\<close> and recall \<open>R\<close> are the float means of the per-row scores
  (their \<^verbatim>\<open>sum\<close> divided by the length), the F1 value is the float value of the expression
  \<^verbatim>\<open>2 * (P * R) / (P + R)\<close>, each operation rounded, if the float \<open>P + R\<close> is positive,
  and 0 otherwise; and the F1 value is 0 exactly when \<open>P\<close> and \<open>R\<close> are both 0. Of
  \<^verbatim>\<open>sum\<close> this uses only that the sum of non-negative floats is non-negative, and zero
  exactly when all of them are zero.
\<close>

theorem f1_float_harmonic_mean:
  assumes "analyze_desc_type json_loads literal_eval repr py_sum variant_to_procedure variant_to_condition
             df_results desc_type = Inr a"
    and sum_ok: "\<And>ys. \<forall>y\<in>set ys. 0 \<le> y \<Longrightarrow>
                     0 \<le> py_sum ys \<and> (py_sum ys = 0) = (\<forall>y\<in>set ys. y = 0)"
  shows "\<exists>st. analyze_rows json_loads literal_eval repr variant_to_procedure variant_to_condition
             initial_state (filter (\<lambda>row. description_type row = desc_type) df_results) = Inr st
     \<and> procedure_precision a =
         fl (py_sum (map fl (procedure_precision_scores st))
             / fl (real (length (procedure_precision_scores st))))
     \<and> procedure_recall a =
         fl (py_sum (map fl (procedure_recall_scores st))
             / fl (real (length (procedure_recall_scores st))))
     \<and> (if float_add (procedure_precision a) (procedure_recall a) > 0
         then procedure_f1 a =
                fl (float_mul 2 (float_mul (procedure_precision a) (procedure_recall a))
                    / float_add (procedure_precision a) (procedure_recall a))
         else procedure_f1 a = 0)
     \<and> (procedure_f1 a = 0) = (procedure_precision a = 0 \<and> procedure_recall a = 0)"
proof -
  let ?rows = "filter (\<lambda>row. description_type row = desc_type) df_results"
  from analyze_desc_type_Inr[OF assms(1)] obtain st where
    run: "analyze_rows json_loads literal_eval repr variant_to_procedure variant_to_condition
             initial_state ?rows = Inr st"
    and met: "calculate_metrics py_sum st (length ?rows) = Inr a"
    by blast
  have inv: "list_all2 (\<lambda>p r. 0 \<le> p \<and> 0 \<le> r \<and> (0 < p) = (0 < r))
           (procedure_precision_scores st) (procedure_recall_scores st)"
    using analyze_rows_invariant[OF run] by (simp add: initial_state_def)
  note z = paired_scores_zero[OF inv]
  note avg = calculate_metrics_averages[OF met]
  have ne: "procedure_precision_scores st \<noteq> []" "procedure_recall_scores st \<noteq> []"
    using avg by simp_all
  have P: "procedure_precision a =
         fl (py_sum (map fl (procedure_precision_scores st))
             / fl (real (length (procedure_precision_scores st))))"
    and R: "procedure_recall a =
         fl (py_sum (map fl (procedure_recall_scores st))
             / fl (real (length (procedure_recall_scores st))))"
    and F: "if float_add (procedure_precision a) (procedure_recall a) > 0
         then procedure_f1 a =
                fl (float_mul 2 (float_mul (procedure_precision a) (procedure_recall a))
                    / float_add (procedure_precision a) (procedure_recall a))
         else procedure_f1 a = 0"
    using avg by simp_all
  have nnp: "\<forall>p\<in>set (procedure_precision_scores st). 0 \<le> p"
    and nnr: "\<forall>r\<in>set (procedure_recall_scores st). 0 \<le> r"
    and zz: "(\<forall>p\<in>set (procedure_precision_scores st). p = 0)
           = (\<forall>r\<in>set (procedure_recall_scores st). r = 0)"
    using z by simp_all
  have P0: "0 \<le> procedure_precision a"
    and Pz: "(procedure_precision a = 0) = (\<forall>p\<in>set (procedure_precision_scores st). p = 0)"
    unfolding P using float_mean_zero_iff[of py_sum, OF sum_ok nnp ne(1)] by simp_all
  have R0: "0 \<le> procedure_recall a"
    and Rz: "(procedure_recall a = 0) = (\<forall>r\<in>set (procedure_recall_scores st). r = 0)"
    unfolding R using float_mean_zero_iff[of py_sum, OF sum_ok nnr ne(2)] by simp_all
  have PR: "(procedure_precision a = 0) = (procedure_recall a = 0)"
    unfolding Pz Rz by (rule zz)
  note iff = float_f1_zero_iff[OF P0 R0 PR F]
  show ?thesis
    using run P R F iff by (intro exI[of _ st] conjI)
qed

theorem f1_float_harmonic_mean_witness:
  "\<exists>a. analyze_desc_type scenario_json_loads (\<lambda>s. None) (\<lambda>v. []) float_sum scenario_variant_to_procedure
          scenario_variant_to_condition [scenario_row ''A'' ''A'', scenario_row ''A'' ''B'']
          ''desc_1'' = Inr a
      \<and> procedure_precision a = 3 / 4 \<and> procedure_recall a = 3 / 4 \<and> procedure_f1 a = 3 / 4
      \<and> (procedure_f1 a = 0) = (procedure_precision a = 0 \<and> procedure_recall a = 0)"
  using scenario_analysis f1_float_harmonic_mean [OF scenario_analysis float_sum_nonneg]
  by simp

text \<open>
  The claim as first stated, that the F1 value equals \<open>2PR / (P + R)\<close>, fails in float
  arithmetic: for one exact match among ten rows whose other nine have no procedure in
  common, \<open>P\<close> and \<open>R\<close> are the float nearest 0.1, whose harmonic mean is that same
  number, and the F1 value is the next float above it.
\<close>

theorem f1_is_not_exact_harmonic_mean:
  "(case analyze_desc_type scenario_json_loads (\<lambda>s. None) (\<lambda>v. []) float_sum scenario_variant_to_procedure
           scenario_variant_to_condition tenth_rows ''desc_1'' of
      Inl e \<Rightarrow> False
    | Inr a \<Rightarrow>
        procedure_precision a = 3602879701896397 / 36028797018963968
        \<and> procedure_recall a = 3602879701896397 / 36028797018963968
        \<and> procedure_f1 a = 7205759403792795 / 72057594037927936
        \<and> 0 < procedure_precision a + procedure_recall a
        \<and> procedure_f1 a \<noteq> 2 * procedure_precision a * procedure_recall a
                              / (procedure_precision a + procedure_recall a))"
  by (simp add: tenth_analysis)

text \<open>
  Claim C8. When no row of the results has the description type, the analysis of that
  type raises (the division by the row count 0), and so does \<^verbatim>\<open>analyze_partial_credit\<close>
  when the type is one of the three it loops over: no metrics are returned.
\<close>

theorem empty_batch_raises:
  assumes "filter (\<lambda>row. description_type row = desc_type) df_results = []"
  shows "analyze_desc_type json_loads literal_eval repr py_sum variant_to_procedure variant_to_condition
           df_results desc_type = Inl ZeroDivisionError
     \<and> (if desc_type \<in> {''desc_1'', ''desc_2'', ''desc_3''}
        then \<exists>e. analyze_partial_credit json_loads literal_eval repr py_sum variant_to_procedure
                    variant_to_condition df_results = Inl e
        else True)"
proof -
  have a: "analyze_desc_type json_loads literal_eval repr py_sum variant_to_procedure variant_to_condition
           df_results desc_type = Inl ZeroDivisionError"
    using assms by (simp add: analyze_desc_type_def calculate_metrics_def py_div_def)
  show ?thesis
    using a analyze_desc_types_raises[OF a, of "[''desc_1'', ''desc_2'', ''desc_3'']"]
    by (simp add: analyze_partial_credit_def del: analyze_desc_types.simps)
qed

theorem empty_batch_raises_witness:
  "filter (\<lambda>row. description_type row = ''desc_2'') [scenario_row ''A'' ''A''] = []
   \<and> analyze_desc_type scenario_json_loads (\<lambda>s. None) (\<lambda>v. []) float_sum scenario_variant_to_procedure
        scenario_variant_to_condition [scenario_row ''A'' ''A''] ''desc_2'' = Inl ZeroDivisionError
   \<and> (\<exists>e. analyze_partial_credit scenario_json_loads (\<lambda>s. None) (\<lambda>v. []) float_sum
              scenario_variant_to_procedure scenario_variant_to_condition
              [scenario_row ''A'' ''A''] = Inl e)"
proof -
  have h: "filter (\<lambda>row. description_type row = ''desc_2'') [scenario_row ''A'' ''A''] = []"
    by (simp add: scenario_row_def)
  show ?thesis
    using h empty_batch_raises [OF h, where json_loads = scenario_json_loads
        and literal_eval = "\<lambda>s. None" and repr = "\<lambda>v. []" and py_sum = float_sum
        and variant_to_procedure = scenario_variant_to_procedure
        and variant_to_condition = scenario_variant_to_condition]
    by simp
qed

section \<open>Claims about procedure extraction\<close>

text \<open>
  Claim C6. The claim is that \<^verbatim>\<open>extract_procedures\<close> never raises. It does: the cell
  \<^verbatim>\<open>5\<close> parses to the integer 5, which is true and not iterable, so the loop
  \<^verbatim>\<open>for proc in procedures\<close> raises \<^verbatim>\<open>TypeError\<close>; and a \<^verbatim>\<open>code\<close> that is a list
  cannot be added to the set.
\<close>

theorem extract_procedures_raises:
  \<open>extract_procedures scenario_json_loads literal_eval repr (Some ''5'') = Inl TypeError
   \<and> extract_procedures (\<lambda>s. Some (PyList [PyDict [(PyStr ''code'', PyList [PyInt 1])]]))
         literal_eval repr (Some ''[{"code": [1]}]'') = Inl TypeError\<close>
  by (simp add: extract_procedures_def safe_parse_json_def scenario_json_loads_def
      extract_step_def set_add_def)

text \<open>
  Claim C7. The claim is that a dict with neither \<^verbatim>\<open>code\<close> nor \<^verbatim>\<open>name\<close> is added as its
  string whatever came before it. The test \<^verbatim>\<open>if not proc_set\<close> looks at the whole set:
  after an entry that contributed \<open>A\<close>, such a dict adds nothing; the same dict in first
  position is added.
\<close>

theorem extract_procedures_drops_later_dict:
  \<open>extract_procedures
       (\<lambda>s. Some (PyList [PyDict [(PyStr ''code'', PyStr ''A'')], PyDict [(PyStr ''x'', PyInt 1)]]))
       literal_eval repr (Some ''[{"code": "A"}, {"x": 1}]'') = Inr {KStr ''A''}
   \<and> extract_procedures
       (\<lambda>s. Some (PyList [PyDict [(PyStr ''x'', PyInt 1)], PyDict [(PyStr ''code'', PyStr ''A'')]]))
       literal_eval repr (Some ''[{"x": 1}, {"code": "A"}]'') =
     Inr {KStr ''A'', KStr (repr (PyDict [(PyStr ''x'', PyInt 1)]))}\<close>
  by (simp add: extract_procedures_def safe_parse_json_def extract_step_def set_add_def)

section \<open>Claims about the texts that are embedded and about missing results\<close>

text \<open>
  Claim C1, as amended. The build path embeds, for each catalog entry, the text
  \<^verbatim>\<open>Condition: <Condition> | Clinical Scenario: <Variant>\<close>. The query paths pass the
  raw text to the same encoder and do not apply that template: \<^verbatim>\<open>search\<close> looks up
  the encoding of the query, and the evaluator looks up the encoding of the description
  cell. So the text embedded for an entry is never the entry's variant text, and under
  an encoder that maps distinct texts to distinct vectors the stored embedding of an
  entry differs from the query embedding of its own variant text.
\<close>

theorem template_on_build_path_only:
  assumes "i < length df"
    and "cells desc_type = Some synthetic_desc"
  shows "col_combined_text (embed_acr encode df ! i) =
           ''Condition: '' @ Condition (df ! i) @ '' | Clinical Scenario: '' @ Variant (df ! i)
     \<and> col_embedding (embed_acr encode df ! i) = encode (col_combined_text (embed_acr encode df ! i))
     \<and> search encode nearest query limit = nearest (encode query) limit
     \<and> eval_step py_round encode fetchone desc_type st (idx, orig_variant, cells) =
         (case fetchone (encode synthetic_desc) of
            None \<Rightarrow> st\<lparr>total_queries := total_queries st + 1\<rparr>
          | Some (retr_condition, retr_variant, distance) \<Rightarrow>
              st\<lparr>total_queries := total_queries st + 1,
                 distances := distances st @ [distance],
                 correct_matches :=
                   correct_matches st + (if retr_variant = orig_variant then 1 else 0),
                 all_results := all_results st @
                   [\<lparr>description_type = desc_type,
                     query_id = idx + 1,
                     original_variant = orig_variant,
                     synthetic_description = synthetic_desc,
                     retrieved_condition = retr_condition,
                     retrieved_variant = retr_variant,
                     exact_match = (if retr_variant = orig_variant then ''Yes'' else ''No''),
                     euclidean_distance = py_round distance 6\<rparr>]\<rparr>)
     \<and> col_combined_text (embed_acr encode df ! i) \<noteq> Variant (df ! i)
     \<and> (inj encode \<longrightarrow>
          col_embedding (embed_acr encode df ! i) \<noteq> query_embedding encode (Variant (df ! i)))"
proof -
  have inj: "inj encode \<longrightarrow> encode (combined_text (df ! i)) \<noteq> encode (Variant (df ! i))"
    using combined_text_not_variant[of "df ! i"] by (auto dest: injD)
  show ?thesis
    using inj combined_text_not_variant[of "df ! i"]
      eval_step_query[where cells = cells and desc_type = desc_type
        and synthetic_desc = synthetic_desc and py_round = py_round and encode = encode
        and fetchone = fetchone and st = st and idx = idx and orig_variant = orig_variant,
        OF assms(2)]
    by (simp add: embed_acr_nth[OF assms(1)] search_def query_embedding_def combined_text_def)
qed

theorem template_on_build_path_only_witness:
  "0 < length scenario_catalog
   \<and> inj scenario_encode
   \<and> col_combined_text (embed_acr scenario_encode scenario_catalog ! 0) =
        ''Condition: Pacemaker | Clinical Scenario: Device selection''
   \<and> eval_step scenario_round scenario_encode scenario_fetchone ''desc_1''
        \<lparr>correct_matches = 0, total_queries = 0, distances = [], all_results = []\<rparr>
        (1, ''A'', [''desc_1'' \<mapsto> ''chest pain case''])
      = \<lparr>correct_matches = 1, total_queries = 1, distances = [1 / 4],
         all_results =
           [\<lparr>description_type = ''desc_1'', query_id = 2, original_variant = ''A'',
             synthetic_description = ''chest pain case'', retrieved_condition = ''Chest pain'',
             retrieved_variant = ''A'', exact_match = ''Yes'', euclidean_distance = 1 / 4\<rparr>]\<rparr>
   \<and> col_embedding (embed_acr scenario_encode scenario_catalog ! 0)
        \<noteq> query_embedding scenario_encode (Variant (scenario_catalog ! 0))"
proof -
  have h: "0 < length scenario_catalog" by (simp add: scenario_catalog_def)
  have c: "[''desc_1'' \<mapsto> ''chest pain case''] ''desc_1'' = Some ''chest pain case''" by simp
  have i: "inj scenario_encode" by (simp add: inj_def scenario_encode_def)
  note t = template_on_build_path_only [where encode = scenario_encode and df = scenario_catalog
      and i = 0 and cells = "[''desc_1'' \<mapsto> ''chest pain case'']" and desc_type = "''desc_1''"
      and synthetic_desc = "''chest pain case''" and py_round = scenario_round
      and fetchone = scenario_fetchone
      and st = "\<lparr>correct_matches = 0, total_queries = 0, distances = [], all_results = []\<rparr>"
      and idx = 1 and orig_variant = "''A''", OF h c]
  have a: "col_combined_text (embed_acr scenario_encode scenario_catalog ! 0) =
        ''Condition: Pacemaker | Clinical Scenario: Device selection''"
    using t [THEN conjunct1] by (simp add: scenario_catalog_def)
  have e: "eval_step scenario_round scenario_encode scenario_fetchone ''desc_1''
        \<lparr>correct_matches = 0, total_queries = 0, distances = [], all_results = []\<rparr>
        (1, ''A'', [''desc_1'' \<mapsto> ''chest pain case''])
      = \<lparr>correct_matches = 1, total_queries = 1, distances = [1 / 4],
         all_results =
           [\<lparr>description_type = ''desc_1'', query_id = 2, original_variant = ''A'',
             synthetic_description = ''chest pain case'', retrieved_condition = ''Chest pain'',
             retrieved_variant = ''A'', exact_match = ''Yes'', euclidean_distance = 1 / 4\<rparr>]\<rparr>"
    unfolding t [THEN conjunct2, THEN conjunct2, THEN conjunct2, THEN conjunct1]
    by (simp add: scenario_encode_def scenario_fetchone_def scenario_round_def)
  have n: "col_embedding (embed_acr scenario_encode scenario_catalog ! 0)
        \<noteq> query_embedding scenario_encode (Variant (scenario_catalog ! 0))"
    using t [THEN conjunct2, THEN conjunct2, THEN conjunct2, THEN conjunct2, THEN conjunct2] i
    by (rule mp)
  show ?thesis
    using h i a e n by (intro conjI)
qed

text \<open>
  The claim as first stated, that both paths construct the encoder's input by the same
  template, fails for the catalog entry with variant \<^verbatim>\<open>Device selection\<close> and the query
  \<^verbatim>\<open>Device selection\<close> of \<^verbatim>\<open>search_acr.py\<close>: with the encoder that returns its input,
  the build path encodes the templated text and the query path the bare variant.
\<close>

theorem query_text_is_not_templated:
  "col_embedding (embed_acr scenario_encode scenario_catalog ! 0) =
     ''Condition: Pacemaker | Clinical Scenario: Device selection''
   \<and> Variant (scenario_catalog ! 0) = ''Device selection''
   \<and> query_embedding scenario_encode ''Device selection'' = ''Device selection''
   \<and> query_embedding scenario_encode ''Device selection''
       \<noteq> col_embedding (embed_acr scenario_encode scenario_catalog ! 0)"
  by (simp add: embed_acr_def scenario_catalog_def scenario_encode_def query_embedding_def
      combined_text_def Let_def)

text \<open>
  Claim C9, as amended. A query whose nearest-neighbour lookup yields no result adds no
  match, no distance and no detail row, and there is no tally of failed or skipped
  queries; the remaining queries of the batch are processed, and the exact-match count,
  the mean distance and the detail rows that are reported are those reported for the
  same batch when the description of that query is missing, so that the query is
  skipped.
\<close>

theorem no_result_leaves_no_trace:
  assumes "cells desc_type = Some synthetic_desc"
    and "fetchone (query_embedding encode synthetic_desc) = None"
  shows "summary_exact_matches (fst (evaluate_desc_type py_round np_mean encode fetchone
              (earlier @ (orig_variant, cells) # later) results_so_far desc_type))
           = summary_exact_matches (fst (evaluate_desc_type py_round np_mean encode fetchone
              (earlier @ (orig_variant, cells(desc_type := None)) # later) results_so_far desc_type))
       \<and> mean_distance (fst (evaluate_desc_type py_round np_mean encode fetchone
              (earlier @ (orig_variant, cells) # later) results_so_far desc_type))
           = mean_distance (fst (evaluate_desc_type py_round np_mean encode fetchone
              (earlier @ (orig_variant, cells(desc_type := None)) # later) results_so_far desc_type))
       \<and> snd (evaluate_desc_type py_round np_mean encode fetchone
              (earlier @ (orig_variant, cells) # later) results_so_far desc_type)
           = snd (evaluate_desc_type py_round np_mean encode fetchone
              (earlier @ (orig_variant, cells(desc_type := None)) # later) results_so_far desc_type)"
  using no_result_like_missing[where cells = cells and desc_type = desc_type
      and synthetic_desc = synthetic_desc and fetchone = fetchone and encode = encode
      and py_round = py_round
      and st = "\<lparr>correct_matches = 0, total_queries = 0, distances = [],
                 all_results = results_so_far\<rparr>"
      and earlier = earlier and orig_variant = orig_variant and later = later, OF assms]
  by (simp add: evaluate_desc_type_def Let_def)

theorem no_result_leaves_no_trace_witness:
  "scenario_fetchone (query_embedding scenario_encode ''headache case'') = None
   \<and> snd (evaluate_desc_type scenario_round scenario_mean scenario_encode scenario_fetchone
          scenario_cases [] ''desc_1'')
     = snd (evaluate_desc_type scenario_round scenario_mean scenario_encode scenario_fetchone
          [(''B'', Map.empty), (''A'', [''desc_1'' \<mapsto> ''chest pain case''])] [] ''desc_1'')
   \<and> map query_id (snd (evaluate_desc_type scenario_round scenario_mean scenario_encode
          scenario_fetchone scenario_cases [] ''desc_1'')) = [2]
   \<and> summary_exact_matches (fst (evaluate_desc_type scenario_round scenario_mean scenario_encode
          scenario_fetchone scenario_cases [] ''desc_1'')) = 1"
proof -
  have c: "[''desc_1'' \<mapsto> ''headache case''] ''desc_1'' = Some ''headache case''"
    by simp
  have f: "scenario_fetchone (query_embedding scenario_encode ''headache case'') = None"
    by (simp add: scenario_fetchone_def query_embedding_def scenario_encode_def)
  have e: "scenario_cases =
           [] @ (''B'', [''desc_1'' \<mapsto> ''headache case''])
              # [(''A'', [''desc_1'' \<mapsto> ''chest pain case''])]"
    by (simp add: scenario_cases_def)
  have skipped: "evaluate_desc_type scenario_round scenario_mean scenario_encode scenario_fetchone
          [(''B'', Map.empty), (''A'', [''desc_1'' \<mapsto> ''chest pain case''])] [] ''desc_1''
       = (\<lparr>summary_description_type = ''desc_1'', summary_total_queries = 1,
           summary_exact_matches = 1, accuracy = 1, mean_distance = 1 / 4\<rparr>,
          [\<lparr>description_type = ''desc_1'', query_id = 2, original_variant = ''A'',
             synthetic_description = ''chest pain case'', retrieved_condition = ''Chest pain'',
             retrieved_variant = ''A'', exact_match = ''Yes'', euclidean_distance = 1 / 4\<rparr>])"
    by (simp add: evaluate_desc_type_def eval_rows_def eval_step_def scenario_fetchone_def
        query_embedding_def scenario_encode_def scenario_round_def scenario_mean_def Let_def)
  note t = no_result_leaves_no_trace [where cells = "[''desc_1'' \<mapsto> ''headache case'']"
        and desc_type = "''desc_1''" and synthetic_desc = "''headache case''"
        and fetchone = scenario_fetchone and encode = scenario_encode
        and py_round = scenario_round and np_mean = scenario_mean
        and earlier = "[]" and orig_variant = "''B''"
        and later = "[(''A'', [''desc_1'' \<mapsto> ''chest pain case''])]"
        and results_so_far = "[]", OF c f]
  show ?thesis
    using f t skipped unfolding e by simp
qed

text \<open>
  The claim as first stated, that such a query is excluded from the accuracy denominator,
  fails: of two queries, the first without a result and the second retrieved exactly,
  the summary reports 2 total queries, 1 exact match and the accuracy 1/2, and one
  detail row.
\<close>

theorem no_result_stays_in_denominator:
  "summary_total_queries (fst (evaluate_desc_type scenario_round scenario_mean scenario_encode
        scenario_fetchone scenario_cases [] ''desc_1'')) = 2
   \<and> summary_exact_matches (fst (evaluate_desc_type scenario_round scenario_mean scenario_encode
        scenario_fetchone scenario_cases [] ''desc_1'')) = 1
   \<and> accuracy (fst (evaluate_desc_type scenario_round scenario_mean scenario_encode
        scenario_fetchone scenario_cases [] ''desc_1'')) = 1 / 2
   \<and> map original_variant (snd (evaluate_desc_type scenario_round scenario_mean scenario_encode
        scenario_fetchone scenario_cases [] ''desc_1'')) = [''A'']"
  by (simp add: evaluate_desc_type_def eval_rows_def eval_step_def scenario_fetchone_def
      query_embedding_def scenario_encode_def scenario_cases_def scenario_round_def
      scenario_mean_def Let_def)

end
